theory Spec2Isabelle
  imports Complex_Main "HOL-Library.Log_Nat" "HOL-Library.AList"
begin

section \<open>Exceptions as values\<close>

text \<open>
  The exceptions the handlers of \<^verbatim>\<open>app.py\<close> can meet. A computation that may raise
  returns \<open>error + 'a\<close>, with \<open>Inl\<close> for the exception.
\<close>

datatype error = OverflowError | ValueError | BadRequestKeyError | ZeroDivisionError
  | RequestEntityTooLarge | StdoutError

definition bind_result :: "error + 'a \<Rightarrow> ('a \<Rightarrow> error + 'b) \<Rightarrow> error + 'b" where
  "bind_result r f = (case r of Inl e \<Rightarrow> Inl e | Inr v \<Rightarrow> f v)"

section \<open>Python floats\<close>

text \<open>
  A finite IEEE-754 binary64 value is modelled by the rational number it denotes. Every
  float operation of the source is the exact operation followed by \<open>rnd\<close>, rounding to
  the nearest binary64 value, ties to the even significand. \<open>ilog2 x\<close> is the binary
  exponent of a non-zero \<open>x\<close>; below \<open>2 powi -1022\<close> the spacing stays that of the
  subnormal numbers. A rounded magnitude of \<open>2 ^ 1024\<close> or more is an overflow.
\<close>

definition pow2 :: "int \<Rightarrow> rat" where
  "pow2 e = (if 0 \<le> e then 2 ^ nat e else 1 / 2 ^ nat (- e))"

definition ilog2 :: "rat \<Rightarrow> int" where
  "ilog2 x =
     (let (a, b) = quotient_of \<bar>x\<bar>; e0 = bitlen a - bitlen b
      in if pow2 e0 \<le> \<bar>x\<bar> then e0 else e0 - 1)"

definition rint :: "rat \<Rightarrow> int" where
  "rint q =
     (let f = \<lfloor>q\<rfloor>; d = q - of_int f
      in if d < 1 / 2 then f else if 1 / 2 < d then f + 1 else if even f then f else f + 1)"

definition ulp :: "rat \<Rightarrow> rat" where
  "ulp x = pow2 (max (ilog2 x) (- 1022) - 52)"

definition rnd :: "rat \<Rightarrow> rat" where
  "rnd x = (if x = 0 then 0 else of_int (rint (x / ulp x)) * ulp x)"

definition float_of_int :: "int \<Rightarrow> error + rat" where
  \<comment> \<open>the implicit conversion of an \<open>int\<close> operand of a float operation\<close>
  "float_of_int n =
     (let x = rnd (of_int n) in if \<bar>x\<bar> < 2 ^ 1024 then Inr x else Inl OverflowError)"

definition lit_0_6 :: rat where
  \<comment> \<open>the literal \<open>0.6\<close>\<close>
  "lit_0_6 = rnd (6 / 10)"

definition float_mul :: "rat \<Rightarrow> rat \<Rightarrow> rat" where
  "float_mul x y = rnd (x * y)"

definition int_of_float :: "rat \<Rightarrow> error + int" where
  \<comment> \<open>\<open>int(x)\<close> truncates towards zero; an infinity raises\<close>
  "int_of_float x =
     (if 2 ^ 1024 \<le> \<bar>x\<bar> then Inl OverflowError
      else Inr (if 0 \<le> x then \<lfloor>x\<rfloor> else \<lceil>x\<rceil>))"

definition int_truediv :: "int \<Rightarrow> int \<Rightarrow> error + rat" where
  \<comment> \<open>\<open>a / b\<close> on two ints: the correctly rounded quotient\<close>
  "int_truediv a b =
     (if b = 0 then Inl ZeroDivisionError
      else let x = rnd (of_int a / of_int b)
           in if \<bar>x\<bar> < 2 ^ 1024 then Inr x else Inl OverflowError)"

definition py_round :: "rat \<Rightarrow> int" where
  \<comment> \<open>\<open>round(x)\<close> on a float: the nearest int, a tie to the even one\<close>
  "py_round x = rint x"

section \<open>Strings\<close>

function str_nat :: "nat \<Rightarrow> string" where
  "str_nat n =
     (if n < 10 then [''0123456789'' ! n] else str_nat (n div 10) @ [''0123456789'' ! (n mod 10)])"
  by pat_completeness auto
termination
  by (relation "measure id") auto

definition str_int :: "int \<Rightarrow> string" where
  "str_int i = (if i < 0 then CHR ''-'' # str_nat (nat (- i)) else str_nat (nat i))"

definition is_digit :: "char \<Rightarrow> bool" where
  "is_digit c = (c \<in> set ''0123456789'')"

definition digit_val :: "char \<Rightarrow> int" where
  "digit_val c = int (of_char c) - 48"

section \<open>Dates\<close>

text \<open>
  \<open>datetime.strptime\<close> yields a naive \<open>datetime\<close> at midnight, and the source only ever
  adds whole days to it, so a \<open>datetime\<close> is represented by its proleptic Gregorian
  ordinal (\<open>toordinal()\<close>: 1 is 0001-01-01, \<open>MAXORDINAL\<close> is 9999-12-31). The calendar
  fields are computed from the ordinal as the standard library does.
\<close>

datatype datetime = Datetime int

fun toordinal :: "datetime \<Rightarrow> int" where
  "toordinal (Datetime n) = n"

definition MAXORDINAL :: int where
  "MAXORDINAL = 3652059"

definition timedelta :: "int \<Rightarrow> error + int" where
  \<comment> \<open>\<open>timedelta(days=n)\<close>, as its number of days\<close>
  "timedelta days = (if \<bar>days\<bar> \<le> 999999999 then Inr days else Inl OverflowError)"

definition datetime_add :: "datetime \<Rightarrow> int \<Rightarrow> error + datetime" where
  "datetime_add dt days =
     (let n = toordinal dt + days
      in if 0 < n \<and> n \<le> MAXORDINAL then Inr (Datetime n) else Inl OverflowError)"

definition datetime_sub :: "datetime \<Rightarrow> int \<Rightarrow> error + datetime" where
  "datetime_sub dt days = datetime_add dt (- days)"

definition is_leap :: "int \<Rightarrow> bool" where
  "is_leap year = (year mod 4 = 0 \<and> (if year mod 100 = 0 then year mod 400 = 0 else True))"

definition DAYS_IN_MONTH :: "int list" where
  "DAYS_IN_MONTH = [- 1, 31, 28, 31, 30, 31, 30, 31, 31, 30, 31, 30, 31]"

definition DAYS_BEFORE_MONTH :: "int list" where
  "DAYS_BEFORE_MONTH = [- 1, 0, 31, 59, 90, 120, 151, 181, 212, 243, 273, 304, 334]"

definition days_before_year :: "int \<Rightarrow> int" where
  "days_before_year year =
     (let y = year - 1 in y * 365 + y div 4 - y div 100 + y div 400)"

definition days_in_month :: "int \<Rightarrow> int \<Rightarrow> int" where
  "days_in_month year month =
     (if month = 2 \<and> is_leap year then 29 else DAYS_IN_MONTH ! nat month)"

definition days_before_month :: "int \<Rightarrow> int \<Rightarrow> int" where
  "days_before_month year month =
     DAYS_BEFORE_MONTH ! nat month + (if 2 < month \<and> is_leap year then 1 else 0)"

definition ymd2ord :: "int \<Rightarrow> int \<Rightarrow> int \<Rightarrow> int" where
  "ymd2ord year month day = days_before_year year + days_before_month year month + day"

definition ord2ymd :: "int \<Rightarrow> int \<times> int \<times> int" where
  "ord2ymd n0 =
     (let n = n0 - 1;
          n400 = n div 146097; n = n mod 146097;
          n100 = n div 36524; n = n mod 36524;
          n4 = n div 1461; n = n mod 1461;
          n1 = n div 365; n = n mod 365;
          year = n400 * 400 + 1 + n100 * 100 + n4 * 4 + n1
      in if n1 = 4 \<or> n100 = 4 then (year - 1, 12, 31)
         else
           let leapyear = (n1 = 3 \<and> (n4 \<noteq> 24 \<or> n100 = 3));
               month = (n + 50) div 32;
               preceding = DAYS_BEFORE_MONTH ! nat month + (if 2 < month \<and> leapyear then 1 else 0)
           in if n < preceding
              then let month' = month - 1;
                       preceding' = preceding - (DAYS_IN_MONTH ! nat month'
                                       + (if month' = 2 \<and> leapyear then 1 else 0))
                   in (year, month', n - preceding' + 1)
              else (year, month, n - preceding + 1))"

definition new_datetime :: "int \<Rightarrow> int \<Rightarrow> int \<Rightarrow> error + datetime" where
  \<comment> \<open>the constructor \<open>datetime(year, month, day)\<close> with its range checks\<close>
  "new_datetime year month day =
     (if 1 \<le> year \<and> year \<le> 9999 \<and> 1 \<le> month \<and> month \<le> 12
         \<and> 1 \<le> day \<and> day \<le> days_in_month year month
      then Inr (Datetime (ymd2ord year month day)) else Inl ValueError)"

definition weekday :: "datetime \<Rightarrow> nat" where
  "weekday dt = nat ((toordinal dt + 6) mod 7)"

definition day_names :: "string list" where
  "day_names = [''Monday'', ''Tuesday'', ''Wednesday'', ''Thursday'', ''Friday'',
                ''Saturday'', ''Sunday'']"

definition month_names :: "string list" where
  "month_names = ['''', ''January'', ''February'', ''March'', ''April'', ''May'', ''June'',
                  ''July'', ''August'', ''September'', ''October'', ''November'', ''December'']"

definition zero_pad2 :: "int \<Rightarrow> string" where
  "zero_pad2 d = (if d < 10 then CHR ''0'' # str_int d else str_int d)"

definition strftime_B_d :: "datetime \<Rightarrow> string" where
  \<comment> \<open>\<open>strftime('%B %d')\<close> in the C locale\<close>
  "strftime_B_d dt =
     (case ord2ymd (toordinal dt) of (y, m, d) \<Rightarrow> month_names ! nat m @ '' '' @ zero_pad2 d)"

definition strftime_long :: "datetime \<Rightarrow> string" where
  \<comment> \<open>\<open>strftime('%A, %B %d, %Y')\<close> in the C locale; \<open>%Y\<close> is the year in decimal (years
      below 1000 are padded or not depending on the platform's C library)\<close>
  "strftime_long dt =
     (case ord2ymd (toordinal dt) of (y, m, d) \<Rightarrow>
        day_names ! weekday dt @ '', '' @ month_names ! nat m @ '' '' @ zero_pad2 d
          @ '', '' @ str_int y)"

section \<open>Cycle math\<close>

definition calculate_ovulation_day :: "datetime \<Rightarrow> int \<Rightarrow> bool \<Rightarrow> error + datetime" where
  "calculate_ovulation_day lmp_date cycle_length has_pcos =
     bind_result
       (if has_pcos
        then bind_result (float_of_int cycle_length) (\<lambda>x. int_of_float (float_mul x lit_0_6))
        else Inr (cycle_length - 14))
       (\<lambda>days_to_ovulation.
          bind_result (timedelta days_to_ovulation) (\<lambda>td. datetime_add lmp_date td))"

text \<open>
  The dict \<^verbatim>\<open>{'start': ..., 'end': ...}\<close>; the key \<^verbatim>\<open>end\<close> is a reserved word here, so
  the field is called \<open>finish\<close>.
\<close>

record fertile_window =
  start :: datetime
  finish :: datetime

definition calculate_fertile_window :: "datetime \<Rightarrow> error + fertile_window" where
  "calculate_fertile_window ovulation_day =
     bind_result (timedelta 5) (\<lambda>td5.
     bind_result (datetime_sub ovulation_day td5) (\<lambda>fertile_start.
     bind_result (timedelta 1) (\<lambda>td1.
     bind_result (datetime_add ovulation_day td1) (\<lambda>fertile_end.
       Inr \<lparr>start = fertile_start, finish = fertile_end\<rparr>))))"

fun analyze_cycle_regularity :: "int list \<Rightarrow> bool \<Rightarrow> error + string" where
  "analyze_cycle_regularity cycle_lengths has_pcos =
     (if has_pcos then Inr ''Irregular - PCOS may cause irregular cycles''
      else if cycle_lengths = [] then Inl ValueError
      else if 8 < Max (set cycle_lengths) - Min (set cycle_lengths) then Inr ''Irregular''
      else Inr ''Regular'')"

definition probabilities :: "(int \<times> string) list" where
  "probabilities =
     [(- 5, ''Low (~4%)''), (- 4, ''Low (~10%)''), (- 3, ''Medium (~15%)''),
      (- 2, ''High (~27%)''), (- 1, ''High (~30%)''), (0, ''Peak (~33%)''), (1, ''Very Low'')]"

record probability_entry =
  date :: string
  probability :: string

fun probability_loop ::
  "datetime \<Rightarrow> nat list \<Rightarrow> probability_entry list \<Rightarrow> error + probability_entry list" where
  "probability_loop st [] probability_list = Inr probability_list"
| "probability_loop st (i # rest) probability_list =
     bind_result (timedelta (int i)) (\<lambda>td.
     bind_result (datetime_add st td) (\<lambda>day.
       probability_loop st rest
         (probability_list @ [\<lparr>date = strftime_B_d day, probability = snd (probabilities ! i)\<rparr>])))"

definition calculate_conception_probability ::
  "fertile_window \<Rightarrow> error + probability_entry list" where
  "calculate_conception_probability fw = probability_loop (start fw) [0..<7] []"

section \<open>Parsing the form fields\<close>

text \<open>
  A Python string is a sequence of code points; a \<open>char\<close> is a code point below 256, so
  the texts of a request are the Latin-1 texts. Among these code points the decimal digits
  are the ASCII ones, and the white space that \<open>int\<close> strips is the ASCII white space
  together with the code points 133 and 160.

  \<open>int(s)\<close> on a string: optional white space around an optionally signed run of decimal
  digits, in which single underscores may separate digits; more than 4300 digits are
  refused.
\<close>

definition is_space :: "char \<Rightarrow> bool" where
  "is_space c = (of_char c \<in> set [9, 10, 11, 12, 13, 32, 133, 160 :: nat])"

fun int_digits :: "int \<Rightarrow> string \<Rightarrow> (int \<times> string) option" where
  "int_digits acc [] = Some (acc, [])"
| "int_digits acc [c] =
     (if is_digit c then Some (10 * acc + digit_val c, [])
      else if c = CHR ''_'' then None else Some (acc, [c]))"
| "int_digits acc (c # d # ds) =
     (if is_digit c then int_digits (10 * acc + digit_val c) (d # ds)
      else if c = CHR ''_''
      then (if is_digit d then int_digits (10 * acc + digit_val d) ds else None)
      else Some (acc, c # d # ds))"

definition py_int :: "string \<Rightarrow> error + int" where
  "py_int s =
     (let t = dropWhile is_space s;
          neg = (t \<noteq> [] \<and> hd t = CHR ''-'');
          u = (if t \<noteq> [] \<and> (hd t = CHR ''-'' \<or> hd t = CHR ''+'') then tl t else t)
      in case u of
           [] \<Rightarrow> Inl ValueError
         | d # ds \<Rightarrow>
             if is_digit d
             then (case int_digits (digit_val d) ds of
                     None \<Rightarrow> Inl ValueError
                   | Some (v, rest) \<Rightarrow>
                       if list_all is_space rest \<and> length (filter is_digit u) \<le> 4300
                       then Inr (if neg then - v else v)
                       else Inl ValueError)
             else Inl ValueError)"

text \<open>
  \<open>datetime.strptime(s, '%Y-%m-%d')\<close>. The directives stand for the regular expressions
  \<^verbatim>\<open>\d\d\d\d\<close>, \<^verbatim>\<open>1[0-2]|0[1-9]|[1-9]\<close> and \<^verbatim>\<open>3[0-1]|[1-2]\d|0[1-9]|[1-9]| [1-9]\<close>, tried
  in this order; the whole string must be consumed, and the fields must form a date.
  Below code point 256 the class \<^verbatim>\<open>\d\<close> holds the ASCII digits only.
\<close>

definition match_month :: "string \<Rightarrow> (int \<times> string) option" where
  "match_month s =
     (case s of
        [] \<Rightarrow> None
      | c1 # r1 \<Rightarrow>
          (case r1 of
             [] \<Rightarrow> if c1 \<in> set ''123456789'' then Some (digit_val c1, []) else None
           | c2 # r2 \<Rightarrow>
               if c1 = CHR ''1'' \<and> c2 \<in> set ''012'' then Some (10 + digit_val c2, r2)
               else if c1 = CHR ''0'' \<and> c2 \<in> set ''123456789'' then Some (digit_val c2, r2)
               else if c1 \<in> set ''123456789'' then Some (digit_val c1, r1)
               else None))"

definition match_day :: "string \<Rightarrow> (int \<times> string) option" where
  "match_day s =
     (case s of
        [] \<Rightarrow> None
      | c1 # r1 \<Rightarrow>
          (case r1 of
             [] \<Rightarrow> if c1 \<in> set ''123456789'' then Some (digit_val c1, []) else None
           | c2 # r2 \<Rightarrow>
               if c1 = CHR ''3'' \<and> c2 \<in> set ''01'' then Some (30 + digit_val c2, r2)
               else if c1 \<in> set ''12'' \<and> is_digit c2
               then Some (10 * digit_val c1 + digit_val c2, r2)
               else if c1 = CHR ''0'' \<and> c2 \<in> set ''123456789'' then Some (digit_val c2, r2)
               else if c1 \<in> set ''123456789'' then Some (digit_val c1, r1)
               else if c1 = CHR '' '' \<and> c2 \<in> set ''123456789'' then Some (digit_val c2, r2)
               else None))"

definition strptime :: "string \<Rightarrow> error + datetime" where
  "strptime s =
     (if 5 \<le> length s \<and> list_all is_digit (take 4 s) \<and> s ! 4 = CHR ''-''
      then (case match_month (drop 5 s) of
              None \<Rightarrow> Inl ValueError
            | Some (m, r) \<Rightarrow>
                if r \<noteq> [] \<and> hd r = CHR ''-''
                then (case match_day (tl r) of
                        None \<Rightarrow> Inl ValueError
                      | Some (d, r') \<Rightarrow>
                          if r' = []
                          then new_datetime
                                 (1000 * digit_val (s ! 0) + 100 * digit_val (s ! 1)
                                    + 10 * digit_val (s ! 2) + digit_val (s ! 3)) m d
                          else Inl ValueError)
                else Inl ValueError)
      else Inl ValueError)"

section \<open>The request and the uploaded table\<close>

text \<open>
  A request is the list of the parts of its body, form fields and files, in the order
  sent. The first access to \<open>request.form\<close> parses the body; the parser refuses a body
  beyond its limits (the number of parts, the size of a field) with
  \<open>RequestEntityTooLarge\<close>, which leaves the handler as a 413 response. The limits depend
  on the configuration and on the version of the framework, so what the parser accepts is
  a parameter. Once parsed, \<open>request.form\<close> and \<open>request.files\<close> are maps from field
  names, the first part under a name winning. A file sent with an empty file name is a
  file part all the same.

  What pandas makes of the bytes is outside this repository: the two readers are
  parameters, returning the parsed table or the text of the exception they raise, and so
  is the rendering \<open>f"{column.mean():.2f}"\<close> of a column's mean.

  A table is its column labels and its rows; a row gives the cell under each label. A cell
  is a missing value (\<open>NaN\<close>, or \<open>NaT\<close> in a date column), a Python string, or any other
  scalar, kept as the text \<open>str\<close> gives for it.

  \<open>print\<close> writes a line to the standard output and can fail there (a text the encoding
  of the output cannot represent, a closed stream). The output is a parameter too: it
  accepts a line, or gives the text of the exception that \<open>print\<close> raises.
\<close>

type_synonym form = "string \<rightharpoonup> string"

record file_storage =
  filename :: string
  stream :: string

type_synonym files = "string \<rightharpoonup> file_storage"

datatype part = Field string string | File string file_storage

type_synonym request = "part list"

fun form_of :: "request \<Rightarrow> form" where
  "form_of [] = Map.empty"
| "form_of (Field key v # parts) = (form_of parts)(key \<mapsto> v)"
| "form_of (File key f # parts) = form_of parts"

fun files_of :: "request \<Rightarrow> files" where
  "files_of [] = Map.empty"
| "files_of (Field key v # parts) = files_of parts"
| "files_of (File key f # parts) = (files_of parts)(key \<mapsto> f)"

definition parse_request :: "(request \<Rightarrow> bool) \<Rightarrow> request \<Rightarrow> error + (form \<times> files)" where
  \<comment> \<open>the first access to \<open>request.form\<close>\<close>
  "parse_request accepts parts =
     (if accepts parts then Inr (form_of parts, files_of parts) else Inl RequestEntityTooLarge)"

type_synonym console = "string \<Rightarrow> string option"

datatype cell = NaN | NaT | Str string | Scalar string

record data_frame =
  columns :: "string list"
  rows :: "(string \<Rightarrow> cell) list"

record pandas =
  read_csv :: "string \<Rightarrow> string + data_frame"
  read_excel :: "string \<Rightarrow> string + data_frame"
  mean_2f :: "cell list \<Rightarrow> string + string"

datatype json = JNull | JBool bool | JInt int | JStr string | JArr "json list"
  | JObj "(string \<times> json) list"

definition lower_char :: "char \<Rightarrow> char" where
  \<comment> \<open>the capital letters below code point 256: A to Z, and 192 to 222 but the sign 215\<close>
  "lower_char c =
     (let n = of_char c :: nat
      in if (65 \<le> n \<and> n \<le> 90) \<or> (192 \<le> n \<and> n \<le> 222 \<and> n \<noteq> 215)
         then char_of (n + 32) else c)"

definition lower :: "string \<Rightarrow> string" where
  "lower s = map lower_char s"

definition endswith :: "string \<Rightarrow> string \<Rightarrow> bool" where
  "endswith s suffix =
     (length suffix \<le> length s \<and> drop (length s - length suffix) s = suffix)"

definition read_table :: "pandas \<Rightarrow> file_storage \<Rightarrow> string + data_frame" where
  "read_table pd bbt_file =
     (if endswith (lower (filename bbt_file)) ''.csv'' then read_csv pd (stream bbt_file)
      else read_excel pd (stream bbt_file))"

definition name_text :: "string option \<Rightarrow> string" where
  \<comment> \<open>\<open>name\<close> inside an f-string\<close>
  "name_text name = (case name of None \<Rightarrow> ''None'' | Some s \<Rightarrow> s)"

definition quoted :: "string \<Rightarrow> string" where
  \<comment> \<open>a text between two apostrophes\<close>
  "quoted s = [CHR 0x27] @ s @ [CHR 0x27]"

definition matches_user :: "string option \<Rightarrow> (string \<Rightarrow> cell) \<Rightarrow> bool" where
  \<comment> \<open>the mask \<open>df['user_id'] == name\<close> at one row\<close>
  "matches_user name row = (case name of None \<Rightarrow> False | Some s \<Rightarrow> row ''user_id'' = Str s)"

definition str_cell :: "cell \<Rightarrow> string" where
  "str_cell value =
     (case value of NaN \<Rightarrow> ''nan'' | NaT \<Rightarrow> ''NaT'' | Str s \<Rightarrow> s | Scalar s \<Rightarrow> s)"

definition series_get :: "data_frame \<Rightarrow> (string \<Rightarrow> cell) \<Rightarrow> string \<Rightarrow> cell option" where
  \<comment> \<open>\<open>user_row.get(col, None)\<close>\<close>
  "series_get df user_row col = (if col \<in> set (columns df) then Some (user_row col) else None)"

section \<open>The Predict handler\<close>

definition try_print :: "console \<Rightarrow> string \<Rightarrow> string + string list" where
  \<comment> \<open>a \<open>print\<close> inside the \<open>try\<close>: the line written, or the text of the exception\<close>
  "try_print out line = (case out line of None \<Rightarrow> Inr [line] | Some e \<Rightarrow> Inl e)"

definition bbt_report ::
  "console \<Rightarrow> pandas \<Rightarrow> string option \<Rightarrow> data_frame \<Rightarrow> string + string list" where
  \<comment> \<open>lines 82 to 95\<close>
  "bbt_report out pd name df =
     (if ''user_id'' \<in> set (columns df)
      then let user_rows = filter (matches_user name) (rows df)
           in if user_rows \<noteq> []
              then (case find (\<lambda>col. col \<in> set (columns df))
                           [''bbt'', ''BBT'', ''temperature'', ''Temperature''] of
                      Some col \<Rightarrow>
                        (case mean_2f pd (map (\<lambda>r. r col) user_rows) of
                           Inl e \<Rightarrow> Inl e
                         | Inr avg_bbt \<Rightarrow>
                             try_print out (''Average BBT for user '' @ quoted (name_text name)
                                              @ '': '' @ avg_bbt))
                    | None \<Rightarrow> try_print out ''No BBT column found in the file.'')
              else try_print out (''No rows found for user_id '' @ quoted (name_text name) @ ''.'')
      else try_print out (''No '' @ quoted ''user_id'' @ '' column found in the file.''))"

text \<open>
  Lines 72 to 97 return the lines printed, and the exception of a \<open>print\<close> that fails
  outside the \<open>try\<close>: the one of line 74, which comes before it, and the one of line 97,
  which stands in the handler of the exception.
\<close>

definition bbt_block ::
  "console \<Rightarrow> pandas \<Rightarrow> string option \<Rightarrow> files \<Rightarrow> string list \<times> (error + unit)" where
  "bbt_block out pd name request_files =
     (case request_files ''bbtFile'' of
        None \<Rightarrow> ([], Inr ())
      | Some bbt_file \<Rightarrow>
          if filename bbt_file \<noteq> []
          then (case out (''Received file: '' @ filename bbt_file) of
                  Some e \<Rightarrow> ([], Inl StdoutError)
                | None \<Rightarrow>
                    (case (case read_table pd bbt_file of
                             Inl e \<Rightarrow> Inl e
                           | Inr df \<Rightarrow> bbt_report out pd name df) of
                       Inr printed \<Rightarrow> ((''Received file: '' @ filename bbt_file) # printed, Inr ())
                     | Inl e \<Rightarrow>
                         (case out (''Error reading file: '' @ e) of
                            None \<Rightarrow>
                              ([''Received file: '' @ filename bbt_file,
                                ''Error reading file: '' @ e], Inr ())
                          | Some e' \<Rightarrow>
                              ([''Received file: '' @ filename bbt_file], Inl StdoutError))))
          else ([], Inr ()))"

definition form_get :: "form \<Rightarrow> string \<Rightarrow> error + string" where
  \<comment> \<open>\<open>data[key]\<close>\<close>
  "form_get data key = (case data key of None \<Rightarrow> Inl BadRequestKeyError | Some v \<Rightarrow> Inr v)"

definition form_int :: "form \<Rightarrow> string \<Rightarrow> error + int" where
  "form_int data key = bind_result (form_get data key) py_int"

definition round_mean :: "int list \<Rightarrow> error + int" where
  \<comment> \<open>\<open>round(sum(xs) / len(xs))\<close>\<close>
  "round_mean xs =
     bind_result (int_truediv (sum_list xs) (int (length xs))) (\<lambda>x. Inr (py_round x))"

definition entry_json :: "probability_entry \<Rightarrow> json" where
  "entry_json e = JObj [(''date'', JStr (date e)), (''probability'', JStr (probability e))]"

definition predict_response ::
  "int list \<Rightarrow> int list \<Rightarrow> datetime \<Rightarrow> bool \<Rightarrow> error + json" where
  \<comment> \<open>lines 100 to 126\<close>
  "predict_response cycle_lengths period_durations lmp_date has_pcos =
     bind_result (round_mean cycle_lengths) (\<lambda>avg_cycle_length.
     bind_result (round_mean period_durations) (\<lambda>avg_period_duration.
     bind_result (timedelta avg_cycle_length) (\<lambda>td.
     bind_result (datetime_add lmp_date td) (\<lambda>next_lmp_date.
     bind_result (calculate_ovulation_day next_lmp_date avg_cycle_length has_pcos) (\<lambda>ovulation_day.
     bind_result (calculate_fertile_window ovulation_day) (\<lambda>fertile_window.
     bind_result (analyze_cycle_regularity cycle_lengths has_pcos) (\<lambda>cycle_regularity.
     bind_result (calculate_conception_probability fertile_window) (\<lambda>conception_probability.
       Inr (JObj
         [(''fertileWindow'', JObj
             [(''start'', JStr (strftime_long (start fertile_window))),
              (''end'', JStr (strftime_long (finish fertile_window)))]),
          (''ovulationDay'', JStr (strftime_long ovulation_day)),
          (''cycleRegularity'', JStr cycle_regularity),
          (''conceptionProbability'', JArr (map entry_json conception_probability)),
          (''insights'', JObj
             [(''averageCycleLength'', JInt avg_cycle_length),
              (''averagePeriodDuration'', JInt avg_period_duration)])])))))))))"

definition predict_inputs :: "form \<Rightarrow> error + (int list \<times> int list \<times> datetime)" where
  \<comment> \<open>lines 61 to 65\<close>
  "predict_inputs data =
     bind_result (form_int data ''cycleLength1'') (\<lambda>c1.
     bind_result (form_int data ''cycleLength2'') (\<lambda>c2.
     bind_result (form_int data ''cycleLength3'') (\<lambda>c3.
     bind_result (form_int data ''periodDuration1'') (\<lambda>p1.
     bind_result (form_int data ''periodDuration2'') (\<lambda>p2.
     bind_result (form_int data ''periodDuration3'') (\<lambda>p3.
     bind_result (form_get data ''lmpDate3'') (\<lambda>lmp_date_str.
     bind_result (strptime lmp_date_str) (\<lambda>lmp_date.
       Inr ([c1, c2, c3], [p1, p2, p3], lmp_date)))))))))"

text \<open>
  The handler returns what it printed and either the exception that leaves it or the body
  it passes to \<open>jsonify\<close>.
\<close>

definition predict ::
  "(request \<Rightarrow> bool) \<Rightarrow> console \<Rightarrow> pandas \<Rightarrow> request \<Rightarrow> string list \<times> (error + json)" where
  "predict accepts out pd parts =
     (case parse_request accepts parts of
        Inl e \<Rightarrow> ([], Inl e)
      | Inr (data, request_files) \<Rightarrow>
          let name = data ''name''
          in case predict_inputs data of
               Inl e \<Rightarrow> ([], Inl e)
             | Inr (cycle_lengths, period_durations, lmp_date) \<Rightarrow>
                 let has_pcos = (data ''pcos'' = Some ''true'');
                     (printed, bbt) =
                       (if has_pcos then bbt_block out pd name request_files else ([], Inr ()))
                 in (printed,
                     case bbt of
                       Inl e \<Rightarrow> Inl e
                     | Inr _ \<Rightarrow>
                         predict_response cycle_lengths period_durations lmp_date has_pcos))"

section \<open>The data retrieval handler\<close>

definition columns_to_load :: "string list" where
  "columns_to_load =
     [''LMP_Cycle_1'', ''LMP_Cycle_2'', ''LMP_Cycle_3'',
      ''Cycle_Length_1'', ''Cycle_Length_2'', ''Cycle_Length_3'',
      ''Period_Duration_1'', ''Period_Duration_2'', ''Period_Duration_3'',
      ''is_pcos'']"

text \<open>
  \<open>result\<close> is a dict: an association list in insertion order, where \<open>AList.update\<close>
  overwrites a key in place or appends a new one, as assignment to \<open>result[key]\<close> does.
\<close>

definition field_json :: "cell option \<Rightarrow> json" where
  \<comment> \<open>lines 156 to 159: \<open>str(value)\<close> unless \<open>value is None\<close>\<close>
  "field_json value = (case value of Some v \<Rightarrow> JStr (str_cell v) | None \<Rightarrow> JNull)"

fun load_columns ::
  "(string \<Rightarrow> cell option) \<Rightarrow> string list \<Rightarrow> (string \<times> json) list \<Rightarrow> (string \<times> json) list" where
  "load_columns user_row [] result = result"
| "load_columns user_row (col # cols) result =
     load_columns user_row cols (AList.update col (field_json (user_row col)) result)"

definition receive_data_result :: "pandas \<Rightarrow> form \<Rightarrow> files \<Rightarrow> (string \<times> json) list" where
  \<comment> \<open>lines 131 to 169, on the parsed request\<close>
  "receive_data_result pd data request_files =
     (let name = data ''name'';
          result = [(''success'', JBool False), (''message'', JStr [])]
      in case request_files ''bbtFile_data'' of
           None \<Rightarrow> AList.update ''message'' (JStr ''No file uploaded.'') result
         | Some bbt_file \<Rightarrow>
             if filename bbt_file \<noteq> []
             then (case read_table pd bbt_file of
                     Inl e \<Rightarrow> AList.update ''message'' (JStr (''Error reading file: '' @ e)) result
                   | Inr df \<Rightarrow>
                       if ''user_id'' \<in> set (columns df)
                       then (case filter (matches_user name) (rows df) of
                               [] \<Rightarrow>
                                 AList.update ''message''
                                   (JStr (''No rows found for user_id ''
                                            @ quoted (name_text name) @ ''.'')) result
                             | user_row # _ \<Rightarrow>
                                 AList.update ''message''
                                   (JStr (''Data loaded for user ''
                                            @ quoted (name_text name) @ ''.''))
                                   (AList.update ''success'' (JBool True)
                                      (load_columns (series_get df user_row) columns_to_load
                                         result)))
                       else AList.update ''message''
                              (JStr (''No '' @ quoted ''user_id''
                                       @ '' column found in the file.'')) result)
             else AList.update ''message'' (JStr ''No file uploaded.'') result)"

text \<open>
  The handler: line 130 parses the request, outside the \<open>try\<close>, and line 170 passes the
  result, whose values are booleans, texts and nulls, to \<open>jsonify\<close>.
\<close>

definition receive_data ::
  "(request \<Rightarrow> bool) \<Rightarrow> pandas \<Rightarrow> request \<Rightarrow> error + (string \<times> json) list" where
  "receive_data accepts pd parts =
     (case parse_request accepts parts of
        Inl e \<Rightarrow> Inl e
      | Inr (data, request_files) \<Rightarrow> Inr (receive_data_result pd data request_files))"

section \<open>Reading a response, and the requests used as examples\<close>

definition json_get :: "json \<Rightarrow> string \<Rightarrow> json option" where
  \<comment> \<open>the member of a JSON object under a key\<close>
  "json_get body key = (case body of JObj members \<Rightarrow> map_of members key | _ \<Rightarrow> None)"

definition max_form_parts :: "request \<Rightarrow> bool" where
  \<comment> \<open>the parser's default limit on the number of parts\<close>
  "max_form_parts parts = (length parts \<le> 1000)"

definition stdout_ok :: console where
  \<comment> \<open>an output that takes every line\<close>
  "stdout_ok = (\<lambda>line. None)"

definition no_pandas :: pandas where
  \<comment> \<open>readers that are never consulted\<close>
  "no_pandas =
     \<lparr>read_csv = (\<lambda>_. Inl []), read_excel = (\<lambda>_. Inl []), mean_2f = (\<lambda>_. Inl [])\<rparr>"

definition scenario_request :: request where
  \<comment> \<open>the round-trip scenario of the specification\<close>
  "scenario_request =
     [Field ''name'' ''alice'',
      Field ''cycleLength1'' ''28'', Field ''cycleLength2'' ''30'', Field ''cycleLength3'' ''26'',
      Field ''periodDuration1'' ''5'', Field ''periodDuration2'' ''6'',
      Field ''periodDuration3'' ''5'',
      Field ''lmpDate3'' ''2024-01-01'', Field ''pcos'' ''false'']"

definition history_csv :: string where
  "history_csv =
     ''user_id,LMP_Cycle_1,Cycle_Length_1,is_pcos'' @ [CHR 0x0A]
     @ ''bob,2024-03-05,31,True'' @ [CHR 0x0A]
     @ ''alice,2024-01-01,,False'' @ [CHR 0x0A]
     @ ''alice,2023-12-04,28,False'' @ [CHR 0x0A]"

definition scenario_body :: json where
  \<comment> \<open>the body of the response in the scenario\<close>
  "scenario_body =
     JObj
       [(''fertileWindow'', JObj
           [(''start'', JStr ''Wednesday, February 07, 2024''),
            (''end'', JStr ''Tuesday, February 13, 2024'')]),
        (''ovulationDay'', JStr ''Monday, February 12, 2024''),
        (''cycleRegularity'', JStr ''Regular''),
        (''conceptionProbability'', JArr
           [JObj [(''date'', JStr ''February 07''), (''probability'', JStr ''Low (~4%)'')],
            JObj [(''date'', JStr ''February 08''), (''probability'', JStr ''Low (~10%)'')],
            JObj [(''date'', JStr ''February 09''), (''probability'', JStr ''Medium (~15%)'')],
            JObj [(''date'', JStr ''February 10''), (''probability'', JStr ''High (~27%)'')],
            JObj [(''date'', JStr ''February 11''), (''probability'', JStr ''High (~30%)'')],
            JObj [(''date'', JStr ''February 12''), (''probability'', JStr ''Peak (~33%)'')],
            JObj [(''date'', JStr ''February 13''), (''probability'', JStr ''Very Low'')]]),
        (''insights'', JObj
           [(''averageCycleLength'', JInt 28), (''averagePeriodDuration'', JInt 5)])]"



definition long_periods_request :: request where
  \<comment> \<open>the same request with period durations beyond the precision of a float\<close>
  "long_periods_request =
     [Field ''name'' ''alice'',
      Field ''cycleLength1'' ''28'', Field ''cycleLength2'' ''30'', Field ''cycleLength3'' ''26'',
      Field ''periodDuration1'' ''2251799813685250'',
      Field ''periodDuration2'' ''2251799813685249'',
      Field ''periodDuration3'' ''2251799813685249'',
      Field ''lmpDate3'' ''2024-01-01'', Field ''pcos'' ''false'']"



definition crowded_lookup :: request where
  \<comment> \<open>a data retrieval request without a file, of 1001 parts\<close>
  "crowded_lookup = Field ''name'' ''alice'' # replicate 1000 (Field ''note'' [])"

definition lookup_request :: "string \<Rightarrow> string \<Rightarrow> string \<Rightarrow> request" where
  \<comment> \<open>a data retrieval request for a user, with one file\<close>
  "lookup_request user file_name content =
     [Field ''name'' user, File ''bbtFile_data'' \<lparr>filename = file_name, stream = content\<rparr>]"

definition history_frame :: data_frame where
  \<comment> \<open>the table of \<open>history_csv\<close>: two rows for \<open>alice\<close>, the first with an empty cycle
      length, which makes the column one of floats\<close>
  "history_frame =
     \<lparr>columns = [''user_id'', ''LMP_Cycle_1'', ''Cycle_Length_1'', ''is_pcos''],
      rows =
        [(\<lambda>_. NaN)(''user_id'' := Str ''bob'', ''LMP_Cycle_1'' := Str ''2024-03-05'',
            ''Cycle_Length_1'' := Scalar ''31.0'', ''is_pcos'' := Scalar ''True''),
         (\<lambda>_. NaN)(''user_id'' := Str ''alice'', ''LMP_Cycle_1'' := Str ''2024-01-01'',
            ''Cycle_Length_1'' := NaN, ''is_pcos'' := Scalar ''False''),
         (\<lambda>_. NaN)(''user_id'' := Str ''alice'', ''LMP_Cycle_1'' := Str ''2023-12-04'',
            ''Cycle_Length_1'' := Scalar ''28.0'', ''is_pcos'' := Scalar ''False'')]\<rparr>"

definition anonymous_csv :: string where
  "anonymous_csv =
     ''LMP_Cycle_1,Cycle_Length_1'' @ [CHR 0x0A] @ ''2024-01-01,28'' @ [CHR 0x0A]"

definition anonymous_frame :: data_frame where
  \<comment> \<open>the table of \<open>anonymous_csv\<close>, which has no \<open>user_id\<close> column\<close>
  "anonymous_frame =
     \<lparr>columns = [''LMP_Cycle_1'', ''Cycle_Length_1''],
      rows = [(\<lambda>_. NaN)(''LMP_Cycle_1'' := Str ''2024-01-01'', ''Cycle_Length_1'' := Scalar ''28'')]\<rparr>"

definition history_pandas :: pandas where
  \<comment> \<open>the CSV reader on the three files used below: the empty file, for which pandas
      raises \<open>EmptyDataError\<close>, and the two tables; it is not consulted on other contents\<close>
  "history_pandas =
     \<lparr>read_csv = (\<lambda>content. if content = [] then Inl ''No columns to parse from file''
                    else if content = history_csv then Inr history_frame
                    else if content = anonymous_csv then Inr anonymous_frame
                    else Inl ''(a content that is not among the examples)''),
      read_excel = (\<lambda>_. Inl ''(the workbook reader is not among the examples)''),
      mean_2f = (\<lambda>_. Inl ''(the mean is not among the examples)'')\<rparr>"

section \<open>Properties of the float model\<close>

text \<open>
  \<open>pow2\<close> is the integer power of two, \<open>ilog2\<close> brackets its argument between two
  consecutive powers, and \<open>rnd\<close> moves a number by at most half a unit in the last place.
  From these follow the two facts the handlers rely on: \<open>round(s / 3)\<close> is the nearest
  integer to the exact third while \<open>s\<close> stays below \<open>3 * 2 ^ 51\<close>, and
  \<open>int(n * 0.6)\<close> is \<open>3 * n div 5\<close> for a non-negative \<open>n\<close> below \<open>2 ^ 31\<close>.
\<close>

lemma pow2_powi: "pow2 e = 2 powi e"
  by (simp add: pow2_def power_int_def inverse_eq_divide power_one_over)

lemma pow2_pos: "0 < pow2 e"
  by (simp add: pow2_powi)

lemma pow2_add: "pow2 (a + b) = pow2 a * pow2 b"
  by (simp add: pow2_powi power_int_add)

lemma pow2_mono: "a \<le> b \<Longrightarrow> pow2 a \<le> pow2 b"
  by (simp add: pow2_powi power_int_increasing)

lemma pow2_less_cancel: "pow2 a < pow2 b \<Longrightarrow> a < b"
  using pow2_mono [of b a] by (cases "a < b") auto

lemma pow2_nat: "0 \<le> e \<Longrightarrow> pow2 e = of_int (2 ^ nat e)"
  by (simp add: pow2_def)

lemma bitlen_pow2_bounds:
  assumes "0 < a"
  shows "pow2 (bitlen a - 1) \<le> of_int a" and "of_int a < pow2 (bitlen a)"
proof -
  from assms have b: "1 \<le> bitlen a" by (simp add: bitlen_alt_def)
  from bitlen_bounds [OF assms] have l: "2 ^ nat (bitlen a - 1) \<le> a" and u: "a < 2 ^ nat (bitlen a)"
    by auto
  from l have "(of_int (2 ^ nat (bitlen a - 1)) :: rat) \<le> of_int a" by (simp only: of_int_le_iff)
  with b show "pow2 (bitlen a - 1) \<le> of_int a" by (simp add: pow2_nat)
  from u have "(of_int a :: rat) < of_int (2 ^ nat (bitlen a))" by (simp only: of_int_less_iff)
  with b show "of_int a < pow2 (bitlen a)" by (simp add: pow2_nat)
qed

lemma ilog2_bounds:
  assumes "x \<noteq> 0"
  shows "pow2 (ilog2 x) \<le> \<bar>x\<bar>" and "\<bar>x\<bar> < pow2 (ilog2 x + 1)"
proof -
  obtain a b where q: "quotient_of \<bar>x\<bar> = (a, b)" by (cases "quotient_of \<bar>x\<bar>")
  then have bpos: "0 < b" and xe: "\<bar>x\<bar> = of_int a / of_int b"
    by (auto dest: quotient_of_denom_pos quotient_of_div)
  from assms have "0 < \<bar>x\<bar>" by simp
  with xe bpos have apos: "0 < a" by (simp add: zero_less_divide_iff)
  let ?e0 = "bitlen a - bitlen b"
  have il: "ilog2 x = (if pow2 ?e0 \<le> \<bar>x\<bar> then ?e0 else ?e0 - 1)"
    by (simp add: ilog2_def q Let_def)
  have bp: "(0::rat) < of_int b" using bpos by simp
  have lo: "pow2 (?e0 - 1) \<le> \<bar>x\<bar>"
  proof -
    have "pow2 (?e0 - 1) * of_int b \<le> pow2 (?e0 - 1) * pow2 (bitlen b)"
      using bitlen_pow2_bounds(2) [OF bpos] pow2_pos [of "?e0 - 1"] by (simp add: less_imp_le)
    also have "\<dots> = pow2 (bitlen a - 1)" by (simp add: pow2_add [symmetric])
    also have "\<dots> \<le> of_int a" by (rule bitlen_pow2_bounds(1) [OF apos])
    finally show ?thesis using bp by (simp add: xe pos_le_divide_eq)
  qed
  have hi: "\<bar>x\<bar> < pow2 (?e0 + 1)"
  proof -
    have "of_int a < pow2 (bitlen a)" by (rule bitlen_pow2_bounds(2) [OF apos])
    also have "\<dots> = pow2 (?e0 + 1) * pow2 (bitlen b - 1)" by (simp add: pow2_add [symmetric])
    also have "\<dots> \<le> pow2 (?e0 + 1) * of_int b"
      using bitlen_pow2_bounds(1) [OF bpos] pow2_pos [of "?e0 + 1"] by simp
    finally show ?thesis using bp by (simp add: xe pos_divide_less_eq)
  qed
  show "pow2 (ilog2 x) \<le> \<bar>x\<bar>" using lo by (simp add: il)
  show "\<bar>x\<bar> < pow2 (ilog2 x + 1)" using hi by (simp add: il not_le)
qed

lemma ilog2_less: "x \<noteq> 0 \<Longrightarrow> \<bar>x\<bar> < pow2 k \<Longrightarrow> ilog2 x < k"
  using ilog2_bounds(1) [of x] pow2_less_cancel [of "ilog2 x" k] by simp

lemma ilog2_ge: "x \<noteq> 0 \<Longrightarrow> pow2 k \<le> \<bar>x\<bar> \<Longrightarrow> k \<le> ilog2 x"
  using ilog2_bounds(2) [of x] pow2_less_cancel [of k "ilog2 x + 1"] by simp

lemma rint_err: "\<bar>of_int (rint q) - q\<bar> \<le> 1 / 2"
proof -
  have "of_int \<lfloor>q\<rfloor> \<le> q" and "q < of_int \<lfloor>q\<rfloor> + 1" by linarith+
  then show ?thesis unfolding rint_def Let_def by (simp add: abs_le_iff)
qed

lemma rint_near:
  assumes "\<bar>q - of_int k\<bar> < 1 / 2"
  shows "rint q = k"
proof -
  have "\<bar>of_int (rint q) - (of_int k :: rat)\<bar> < 1"
    using rint_err [of q] assms by linarith
  then have "\<bar>(of_int (rint q - k) :: rat)\<bar> < of_int 1" by simp
  then have "\<bar>rint q - k\<bar> < 1" by (simp only: of_int_abs [symmetric] of_int_less_iff)
  then show ?thesis by simp
qed

lemma rnd_err: "x \<noteq> 0 \<Longrightarrow> \<bar>rnd x - x\<bar> \<le> ulp x / 2"
proof -
  assume "x \<noteq> 0"
  have u: "0 < ulp x" by (simp add: ulp_def pow2_pos)
  let ?k = "of_int (rint (x / ulp x)) :: rat"
  have "rnd x - x = (?k - x / ulp x) * ulp x"
    using u \<open>x \<noteq> 0\<close> by (simp add: rnd_def left_diff_distrib)
  then have "\<bar>rnd x - x\<bar> = \<bar>?k - x / ulp x\<bar> * ulp x"
    using u by (simp add: abs_mult)
  also have "\<dots> \<le> (1 / 2) * ulp x"
    using rint_err [of "x / ulp x"] u by (intro mult_right_mono) auto
  finally show ?thesis by simp
qed

lemma ulp_le: "x \<noteq> 0 \<Longrightarrow> \<bar>x\<bar> < pow2 k \<Longrightarrow> - 1022 < k \<Longrightarrow> ulp x \<le> pow2 (k - 53)"
  unfolding ulp_def using ilog2_less [of x k] by (intro pow2_mono) auto

lemma pow2_51: "pow2 51 = 2251799813685248" by (simp add: pow2_def)
lemma pow2_m2: "pow2 (- 2) = 1 / 4" by (simp add: pow2_def)

lemma two_1024_big: "(9007199254740992::rat) \<le> 2 ^ 1024"
proof -
  have "(2::rat) ^ 53 \<le> 2 ^ 1024" by (rule power_increasing) simp_all
  then show ?thesis by simp
qed

lemma rnd_small: 
  assumes "\<bar>x\<bar> < 2251799813685248"
  shows "\<bar>rnd x - x\<bar> \<le> 1 / 8"
proof (cases "x = 0")
  case True then show ?thesis by (simp add: rnd_def)
next
  case False
  from assms have "\<bar>x\<bar> < pow2 51" by (simp add: pow2_51)
  from ulp_le [OF False this] have "ulp x \<le> 1 / 4" by (simp add: pow2_m2)
  with rnd_err [OF False] show ?thesis by linarith
qed

lemma truediv_3_round:
  assumes "\<bar>s\<bar> < 6755399441055744"
  shows "bind_result (int_truediv s 3) (\<lambda>x. Inr (py_round x)) = Inr ((s + 1) div 3)"
proof -
  define x :: rat where "x = of_int s / 3"
  define n where "n = (s + 1) div 3"
  define r where "r = (s + 1) mod 3 - 1"
  have xs: "\<bar>x\<bar> < 2251799813685248"
  proof -
    have "\<bar>of_int s :: rat\<bar> < of_int 6755399441055744"
      using assms by (simp only: of_int_abs [symmetric] of_int_less_iff)
    then show ?thesis by (simp add: x_def)
  qed
  have e: "\<bar>rnd x - x\<bar> \<le> 1 / 8" by (rule rnd_small [OF xs])
  have "s = 3 * n + r" unfolding n_def r_def by presburger
  then have "(of_int s :: rat) = 3 * of_int n + of_int r" by simp
  then have d: "x - of_int n = of_int r / 3" by (simp add: x_def add_divide_distrib)
  have "- 1 \<le> r" "r \<le> 1" unfolding r_def by presburger+
  then have "(- 1 :: rat) \<le> of_int r" "(of_int r :: rat) \<le> 1"
    by simp_all
  with d have n: "\<bar>x - of_int n\<bar> \<le> 1 / 3" by linarith
  from e n have "\<bar>rnd x - of_int n\<bar> < 1 / 2" by linarith
  then have r: "rint (rnd x) = n" by (rule rint_near)
  from e xs two_1024_big have "\<bar>rnd x\<bar> < 2 ^ 1024" by linarith
  with r show ?thesis
    by (simp add: int_truediv_def bind_result_def py_round_def Let_def x_def n_def)
qed

lemma ilog2_eq: "x \<noteq> 0 \<Longrightarrow> pow2 k \<le> \<bar>x\<bar> \<Longrightarrow> \<bar>x\<bar> < pow2 (k + 1) \<Longrightarrow> ilog2 x = k"
  using ilog2_less [of x "k + 1"] ilog2_ge [of x k] by simp

lemma rnd_near:
  assumes "x \<noteq> 0" and "\<bar>x / ulp x - of_int k\<bar> < 1 / 2"
  shows "rnd x = of_int k * ulp x"
  using assms rint_near [of "x / ulp x" k] by (simp add: rnd_def)

lemma ulp_normal: "x \<noteq> 0 \<Longrightarrow> - 1022 \<le> ilog2 x \<Longrightarrow> ulp x = pow2 (ilog2 x - 52)"
  by (simp add: ulp_def max_def)

lemma inverse_pow2: "1 / pow2 e = pow2 (- e)"
  by (simp add: pow2_powi power_int_minus_divide)

lemma rnd_int_exact:
  assumes "\<bar>n\<bar> < 9007199254740992"
  shows "rnd (of_int n) = of_int n"
proof (cases "n = 0")
  case True then show ?thesis by (simp add: rnd_def)
next
  case False
  define x :: rat where "x = of_int n"
  have x0: "x \<noteq> 0" using False by (simp add: x_def)
  have "1 \<le> \<bar>n\<bar>" using False by simp
  then have "(of_int 1 :: rat) \<le> of_int \<bar>n\<bar>" by (simp only: of_int_le_iff)
  then have "pow2 0 \<le> \<bar>x\<bar>" by (simp add: x_def pow2_def)
  then have e0: "0 \<le> ilog2 x" by (rule ilog2_ge [OF x0])
  have "(of_int \<bar>n\<bar> :: rat) < of_int 9007199254740992" using assms by (simp only: of_int_less_iff)
  then have "\<bar>x\<bar> < pow2 53" by (simp add: x_def pow2_def)
  then have e53: "ilog2 x < 53" by (rule ilog2_less [OF x0])
  have u: "ulp x = pow2 (ilog2 x - 52)" using e0 by (intro ulp_normal [OF x0]) simp
  define k where "k = n * 2 ^ nat (52 - ilog2 x)"
  have kx: "of_int k = x * pow2 (52 - ilog2 x)"
    using e53 by (simp add: pow2_nat x_def k_def)
  have "x / ulp x = x * pow2 (52 - ilog2 x)"
    using inverse_pow2 [of "ilog2 x - 52"] by (simp add: u divide_inverse)
  then have "\<bar>x / ulp x - of_int k\<bar> < 1 / 2" by (simp add: kx)
  from rnd_near [OF x0 this] have "rnd x = x * pow2 (52 - ilog2 x) * pow2 (ilog2 x - 52)"
    by (simp only: kx u)
  also have "\<dots> = x * pow2 0" by (simp only: mult.assoc pow2_add [symmetric]) simp
  finally show ?thesis by (simp add: x_def pow2_def)
qed

lemma pow2_m1: "pow2 (- 1) = 1 / 2" by (simp add: pow2_def)
lemma pow2_m53: "pow2 (- 53) = 1 / 9007199254740992" by (simp add: pow2_def)

lemma lit_0_6_value: "lit_0_6 = 5404319552844595 / 9007199254740992"
proof -
  define c :: rat where "c = 6 / 10"
  have n0: "c \<noteq> 0" by (simp add: c_def)
  have "ilog2 c = - 1"
    by (rule ilog2_eq) (simp_all add: pow2_def c_def)
  then have u: "ulp c = 1 / 9007199254740992" by (simp add: ulp_def pow2_m53)
  have "\<bar>c / ulp c - of_int 5404319552844595\<bar> < 1 / 2"
    unfolding u by (simp add: c_def)
  from rnd_near [OF n0 this] have "rnd c = 5404319552844595 / 9007199254740992"
    unfolding u by simp
  then show ?thesis by (simp only: lit_0_6_def c_def)
qed

lemma pow2_1: "pow2 1 = 2" by (simp add: pow2_def)
lemma pow2_31: "pow2 31 = 2147483648" by (simp add: pow2_def)
lemma pow2_m22: "pow2 (- 22) = 1 / 4194304" by (simp add: pow2_def)

lemma rnd_times_0_6:
  assumes "0 < n" and "n < 2147483648"
  defines "x \<equiv> of_int n * (5404319552844595 / 9007199254740992 :: rat)"
  shows "of_int (3 * n div 5) \<le> rnd x \<and> rnd x < of_int (3 * n div 5) + 1"
proof -
  have n1: "(1::rat) \<le> of_int n" using assms(1) by simp
  have n31: "(of_int n :: rat) < 2147483648" using assms(2) by simp
  have x0: "x \<noteq> 0" using n1 by (simp add: x_def)
  have xl: "1 / 2 \<le> x" using n1 by (simp add: x_def)
  have xu: "x < 2147483648" using n1 n31 by (simp add: x_def)
  have xa: "\<bar>x\<bar> = x" using xl by simp
  define e where "e = ilog2 x"
  have el: "- 1 \<le> e" unfolding e_def using xl by (intro ilog2_ge [OF x0]) (simp add: pow2_m1 xa)
  have eu: "e < 31" unfolding e_def using xu by (intro ilog2_less [OF x0]) (simp add: pow2_31 xa)
  have u: "ulp x = pow2 (e - 52)" unfolding e_def using el by (intro ulp_normal [OF x0]) (simp add: e_def)
  have five: "5 * x = 3 * of_int n - of_int n / 9007199254740992" by (simp add: x_def)
  show ?thesis
  proof (cases "3 * n mod 5 = 0")
    case True
    then have "\<exists>m. n = 5 * m" by presburger
    then obtain m where m: "n = 5 * m" ..
    have m1: "(1::rat) \<le> of_int m" using assms(1) m by simp
    have xm: "x = 3 * of_int m - of_int m / 9007199254740992" using five by (simp add: m)
    have "2 * of_int m \<le> x" using m1 unfolding xm by simp
    moreover have "x < pow2 (e + 1)" using ilog2_bounds(2) [OF x0] by (simp add: xa e_def)
    moreover have "pow2 (e + 1) = 2 * pow2 e" by (simp add: pow2_add pow2_1)
    ultimately have me: "of_int m < pow2 e" by simp
    define P where "P = pow2 (52 - e)"
    have Ppos: "0 < P" by (simp add: P_def pow2_pos)
    have Pe: "P * pow2 e = 4503599627370496"
      unfolding P_def by (simp only: pow2_add [symmetric]) (simp add: pow2_def)
    have Pu: "P * ulp x = 1"
      unfolding P_def u by (simp only: pow2_add [symmetric]) (simp add: pow2_def)
    then have "ulp x = 1 / P" using Ppos by (simp add: field_simps)
    then have xd: "x / ulp x = x * P" by simp
    define K where "K = 3 * m * 2 ^ nat (52 - e)"
    have KP: "of_int K = 3 * of_int m * P" using eu by (simp add: K_def P_def pow2_nat)
    have "of_int m * P < pow2 e * P" using me Ppos by simp
    then have "of_int m * P < 4503599627370496" using Pe by (simp add: mult.commute)
    moreover have "0 \<le> of_int m * P" using m1 Ppos by simp
    moreover have "x * P - of_int K = - (of_int m * P) / 9007199254740992"
      unfolding xm KP by (simp add: left_diff_distrib)
    ultimately have "\<bar>x / ulp x - of_int K\<bar> < 1 / 2" unfolding xd by linarith
    from rnd_near [OF x0 this] have "rnd x = 3 * of_int m * (P * ulp x)" by (simp only: KP mult.assoc)
    then have "rnd x = of_int (3 * m)" by (simp add: Pu)
    moreover have "3 * n div 5 = 3 * m" by (simp add: m)
    ultimately show ?thesis by simp
  next
    case False
    define a where "a = 3 * n div 5"
    define b where "b = 3 * n mod 5"
    have b: "1 \<le> b" "b \<le> 4" using False unfolding b_def by presburger+
    have "3 * n = 5 * a + b" unfolding a_def b_def by presburger
    then have "(of_int (3 * n) :: rat) = of_int (5 * a + b)" by (simp only:)
    then have n3: "3 * (of_int n :: rat) = 5 * of_int a + of_int b" by simp
    have br: "(1::rat) \<le> of_int b" "(of_int b :: rat) \<le> 4" using b by simp_all
    have "ulp x \<le> pow2 (- 22)" unfolding u using eu by (intro pow2_mono) simp
    with rnd_err [OF x0] have err: "\<bar>rnd x - x\<bar> \<le> 1 / 8388608" by (simp add: pow2_m22)
    from five n3 n1 n31 br err show ?thesis unfolding a_def [symmetric] by linarith
  qed
qed

lemma pcos_days:
  assumes "0 \<le> n" and "n < 2147483648"
  shows "bind_result (float_of_int n) (\<lambda>x. int_of_float (float_mul x lit_0_6)) = Inr (3 * n div 5)"
proof -
  have "rnd (of_int n) = of_int n" using assms by (intro rnd_int_exact) simp
  moreover have "\<bar>of_int n :: rat\<bar> < 2 ^ 1024" using assms two_1024_big by simp
  ultimately have f: "float_of_int n = Inr (of_int n)" by (simp add: float_of_int_def)
  define r where "r = rnd (of_int n * (5404319552844595 / 9007199254740992))"
  have r: "of_int (3 * n div 5) \<le> r \<and> r < of_int (3 * n div 5) + 1"
  proof (cases "n = 0")
    case True then show ?thesis by (simp add: r_def rnd_def)
  next
    case False
    with assms have "0 < n" by simp
    from rnd_times_0_6 [OF this assms(2)] show ?thesis by (simp only: r_def)
  qed
  then have fl: "\<lfloor>r\<rfloor> = 3 * n div 5" by (intro floor_unique) simp_all
  have "0 \<le> 3 * n div 5" using assms by simp
  then have "(0::rat) \<le> of_int (3 * n div 5)" by (simp only: of_int_0_le_iff)
  with r have r0: "0 \<le> r" by linarith
  have "3 * n div 5 < 9007199254740992 - 1" using assms by simp
  then have "(of_int (3 * n div 5) :: rat) < of_int (9007199254740992 - 1)" by (simp only: of_int_less_iff)
  with r two_1024_big have "r < 2 ^ 1024" by simp
  with r0 fl have "int_of_float r = Inr (3 * n div 5)" by (simp add: int_of_float_def)
  then show ?thesis
    by (simp add: f bind_result_def float_mul_def lit_0_6_value r_def)
qed

section \<open>Cycle math: the claims\<close>

lemma floor_0_6: "\<lfloor>of_int n * (6 / 10 :: rat)\<rfloor> = 3 * n div 5"
proof -
  have "of_int n * (6 / 10 :: rat) = of_int (3 * n) / of_int 5" by simp
  then show ?thesis by (simp only: floor_divide_of_int_eq)
qed

lemmas calendar_defs =
  new_datetime_def days_in_month_def is_leap_def DAYS_IN_MONTH_def ymd2ord_def
  days_before_year_def days_before_month_def DAYS_BEFORE_MONTH_def

lemmas date_arith_defs =
  bind_result_def timedelta_def datetime_add_def datetime_sub_def MAXORDINAL_def

text \<open>
  C1, as the code has it. For a positive cycle length and a reference date such that the
  target date lies between 0001-01-01 and 9999-12-31, \<open>calculate_ovulation_day\<close> returns
  the reference date plus \<open>cycle_length - 14\<close> days without the condition, and plus
  \<open>floor (cycle_length * 0.6)\<close> days with it: over this range the float product, once
  truncated, is the exact floor.
\<close>

theorem calculate_ovulation_day_in_range:
  assumes "0 < cycle_length"
    and "days = (if has_pcos then \<lfloor>of_int cycle_length * (6 / 10 :: rat)\<rfloor>
                 else cycle_length - 14)"
    and "0 < toordinal lmp_date" and "toordinal lmp_date \<le> MAXORDINAL"
    and "0 < toordinal lmp_date + days" and "toordinal lmp_date + days \<le> MAXORDINAL"
  shows "calculate_ovulation_day lmp_date cycle_length has_pcos
           = Inr (Datetime (toordinal lmp_date + days))"
proof -
  have d: "\<bar>days\<bar> \<le> 999999999" using assms(3-6) by (simp add: MAXORDINAL_def)
  show ?thesis
  proof (cases has_pcos)
    case True
    then have dv: "days = 3 * cycle_length div 5" using assms(2) by (simp only: floor_0_6 if_True)
    with assms(3,6) have "3 * cycle_length div 5 < 3652059" by (simp add: MAXORDINAL_def)
    then have "cycle_length < 2147483648" by simp
    with assms(1)
    have "bind_result (float_of_int cycle_length) (\<lambda>x. int_of_float (float_mul x lit_0_6))
            = Inr days"
      unfolding dv by (intro pcos_days) simp_all
    with True d assms(5,6) show ?thesis
      by (simp add: calculate_ovulation_day_def bind_result_def timedelta_def datetime_add_def)
  next
    case False
    with d assms(2,5,6) show ?thesis
      by (simp add: calculate_ovulation_day_def bind_result_def timedelta_def datetime_add_def)
  qed
qed

text \<open>
  The theorem at the reference date 2024-01-29 (ordinal 738914) and a cycle of 28 days:
  14 days later without the condition, 16 days later with it.
\<close>

theorem calculate_ovulation_day_in_range_witness:
  "calculate_ovulation_day (Datetime 738914) 28 False = Inr (Datetime 738928)
   \<and> calculate_ovulation_day (Datetime 738914) 28 True = Inr (Datetime 738930)"
proof -
  have "\<lfloor>of_int 28 * (6 / 10 :: rat)\<rfloor> = 16" using floor_0_6 [of 28] by simp
  then show ?thesis
    using calculate_ovulation_day_in_range [of 28 14 False "Datetime 738914"]
      calculate_ovulation_day_in_range [of 28 16 True "Datetime 738914"]
    by (simp add: MAXORDINAL_def)
qed

text \<open>
  C1 as stated, for every reference date, fails at the last date a \<open>datetime\<close> can hold:
  from 9999-12-31 a cycle of 28 days raises \<open>OverflowError\<close> instead of returning the
  date 14 days later.
\<close>

theorem calculate_ovulation_day_overflow_counterexample:
  "new_datetime 9999 12 31 = Inr (Datetime 3652059)
   \<and> calculate_ovulation_day (Datetime 3652059) 28 False = Inl OverflowError
   \<and> calculate_ovulation_day (Datetime 3652059) 28 False \<noteq> Inr (Datetime (3652059 + (28 - 14)))"
  by (simp add: calendar_defs calculate_ovulation_day_def date_arith_defs)

text \<open>
  Without the condition the function is characterised on every input: outside the range
  of the theorem it raises \<open>OverflowError\<close>.
\<close>

lemma calculate_ovulation_day_no_pcos:
  "calculate_ovulation_day lmp_date cycle_length False =
     (if 0 < toordinal lmp_date + (cycle_length - 14)
         \<and> toordinal lmp_date + (cycle_length - 14) \<le> MAXORDINAL
         \<and> \<bar>cycle_length - 14\<bar> \<le> 999999999
      then Inr (Datetime (toordinal lmp_date + (cycle_length - 14)))
      else Inl OverflowError)"
  by (simp add: calculate_ovulation_day_def bind_result_def timedelta_def datetime_add_def
      Let_def)

text \<open>
  C2, as the code has it. For an ovulation day from 0001-01-06 to 9999-12-30,
  \<open>calculate_fertile_window\<close> returns the window that starts 5 days before and ends 1 day
  after it; the end is the start plus 6 days and the window has 7 days, both ends counted.
\<close>

theorem calculate_fertile_window_in_range:
  assumes "5 < toordinal ovulation_day" and "toordinal ovulation_day < MAXORDINAL"
  shows "\<exists>w. calculate_fertile_window ovulation_day = Inr w
           \<and> start w = Datetime (toordinal ovulation_day - 5)
           \<and> finish w = Datetime (toordinal ovulation_day + 1)
           \<and> toordinal (finish w) = toordinal (start w) + 6
           \<and> length [toordinal (start w)..toordinal (finish w)] = 7"
  using assms
  by (simp add: calculate_fertile_window_def bind_result_def timedelta_def datetime_add_def
      datetime_sub_def)

text \<open>The theorem at the ovulation day 2024-02-12 (ordinal 738928).\<close>

theorem calculate_fertile_window_in_range_witness:
  "calculate_fertile_window (Datetime 738928)
     = Inr \<lparr>start = Datetime 738923, finish = Datetime 738929\<rparr>"
  using calculate_fertile_window_in_range [of "Datetime 738928"]
  by (auto simp add: MAXORDINAL_def)

text \<open>
  C2 as stated, for every ovulation day, fails near the first date a \<open>datetime\<close> can hold:
  for the ovulation day 0001-01-03 the subtraction of 5 days raises \<open>OverflowError\<close>.
\<close>

theorem calculate_fertile_window_overflow_counterexample:
  "new_datetime 1 1 3 = Inr (Datetime 3)
   \<and> calculate_fertile_window (Datetime 3) = Inl OverflowError"
  by (simp add: calendar_defs calculate_fertile_window_def date_arith_defs)

lemma calculate_fertile_window_out_of_range:
  "toordinal ovulation_day \<le> 5 \<or> MAXORDINAL \<le> toordinal ovulation_day \<Longrightarrow>
     calculate_fertile_window ovulation_day = Inl OverflowError"
  by (auto simp add: calculate_fertile_window_def bind_result_def timedelta_def
      datetime_add_def datetime_sub_def Let_def)

text \<open>
  C3, as the code has it. For three cycle lengths \<open>analyze_cycle_regularity\<close> returns
  \<^verbatim>\<open>Irregular - PCOS may cause irregular cycles\<close> with the condition, whatever the
  lengths; without it \<^verbatim>\<open>Irregular\<close> when the largest exceeds the smallest by more than 8
  and \<^verbatim>\<open>Regular\<close> otherwise, so a spread of exactly 8 is regular.
\<close>

theorem analyze_cycle_regularity_triple:
  "analyze_cycle_regularity [a, b, c] has_pcos =
     Inr (if has_pcos then ''Irregular - PCOS may cause irregular cycles''
          else if 8 < max a (max b c) - min a (min b c) then ''Irregular'' else ''Regular'')"
  by simp

text \<open>
  C3 as stated names the label \<^verbatim>\<open>Irregular (condition-flagged)\<close>; the code returns another
  text.
\<close>

theorem analyze_cycle_regularity_label_counterexample:
  "analyze_cycle_regularity [28, 30, 26] True = Inr ''Irregular - PCOS may cause irregular cycles''
   \<and> analyze_cycle_regularity [28, 30, 26] True \<noteq> Inr ''Irregular (condition-flagged)''"
  by simp

lemma analyze_cycle_regularity_spread_8:
  "analyze_cycle_regularity [20, 28, 24] False = Inr ''Regular''
   \<and> analyze_cycle_regularity [20, 29, 24] False = Inr ''Irregular''"
  by simp

lemma upt_0_7: "[0..<7] = [0, 1, 2, 3, 4, 5, 6]"
  by code_simp

text \<open>
  C4. For every fertile window (two dates, the end 6 days after the start)
  \<open>calculate_conception_probability\<close> returns 7 entries; entry \<open>i\<close> carries the date
  \<open>start + i\<close> days, written as month name and day of the month, and the \<open>i\<close>-th label
  of the fixed table.
\<close>

theorem calculate_conception_probability_entries:
  assumes "0 < toordinal (start fw)" and "toordinal (finish fw) \<le> MAXORDINAL"
    and "toordinal (finish fw) = toordinal (start fw) + 6"
  shows "calculate_conception_probability fw =
           Inr (map (\<lambda>(i, label). \<lparr>date = strftime_B_d (Datetime (toordinal (start fw) + i)),
                                       probability = label\<rparr>)
                  [(0, ''Low (~4%)''), (1, ''Low (~10%)''), (2, ''Medium (~15%)''),
                   (3, ''High (~27%)''), (4, ''High (~30%)''), (5, ''Peak (~33%)''),
                   (6, ''Very Low'')])"
  using assms
  by (simp add: calculate_conception_probability_def upt_0_7 bind_result_def
      timedelta_def datetime_add_def probabilities_def)

lemma strftime_B_d_february_2024:
  "strftime_B_d (Datetime 738923) = ''February 07''"
  "strftime_B_d (Datetime 738924) = ''February 08''"
  "strftime_B_d (Datetime 738925) = ''February 09''"
  "strftime_B_d (Datetime 738926) = ''February 10''"
  "strftime_B_d (Datetime 738927) = ''February 11''"
  "strftime_B_d (Datetime 738928) = ''February 12''"
  "strftime_B_d (Datetime 738929) = ''February 13''"
  by code_simp+

text \<open>The theorem at the window from 2024-02-07 to 2024-02-13.\<close>

theorem calculate_conception_probability_entries_witness:
  "calculate_conception_probability \<lparr>start = Datetime 738923, finish = Datetime 738929\<rparr> =
     Inr [\<lparr>date = ''February 07'', probability = ''Low (~4%)''\<rparr>,
          \<lparr>date = ''February 08'', probability = ''Low (~10%)''\<rparr>,
          \<lparr>date = ''February 09'', probability = ''Medium (~15%)''\<rparr>,
          \<lparr>date = ''February 10'', probability = ''High (~27%)''\<rparr>,
          \<lparr>date = ''February 11'', probability = ''High (~30%)''\<rparr>,
          \<lparr>date = ''February 12'', probability = ''Peak (~33%)''\<rparr>,
          \<lparr>date = ''February 13'', probability = ''Very Low''\<rparr>]"
  using calculate_conception_probability_entries
          [of "\<lparr>start = Datetime 738923, finish = Datetime 738929\<rparr>"]
  by (simp add: MAXORDINAL_def strftime_B_d_february_2024)

section \<open>The Predict handler: the claims\<close>

lemmas strftime_defs =
  strftime_long_def strftime_B_d_def ord2ymd_def Let_def DAYS_BEFORE_MONTH_def DAYS_IN_MONTH_def
  weekday_def day_names_def month_names_def zero_pad2_def str_int_def

lemmas parsing_defs =
  form_int_def form_get_def py_int_def is_space_def is_digit_def digit_val_def
  strptime_def match_month_def match_day_def

lemma round_mean_3:
  assumes "\<bar>a + b + c\<bar> < 6755399441055744"
  shows "round_mean [a, b, c] = Inr ((a + b + c + 1) div 3)"
  using truediv_3_round [of "a + b + c"] assms by (simp add: round_mean_def add.assoc)

lemma round_third: "round (of_int s / 3 :: rat) = (s + 1) div 3"
proof -
  define n where "n = (s + 1) div 3"
  define r where "r = (s + 1) mod 3 - 1"
  have "s = 3 * n + r" unfolding n_def r_def by presburger
  then have "(of_int s :: rat) = 3 * of_int n + of_int r" by simp
  then have d: "(of_int s :: rat) / 3 = of_int n + of_int r / 3" by (simp add: add_divide_distrib)
  have "- 1 \<le> r" "r \<le> 1" unfolding r_def by presburger+
  then have "(- 1 :: rat) \<le> of_int r" "(of_int r :: rat) \<le> 1" by simp_all
  with d have "of_int n \<le> of_int s / 3 + (1 / 2 :: rat)"
    "of_int s / 3 + (1 / 2 :: rat) < of_int n + 1"
    by linarith+
  then have "\<lfloor>of_int s / 3 + (1 / 2 :: rat)\<rfloor> = n" by (intro floor_unique)
  then show ?thesis by (simp only: round_def n_def)
qed

lemma round_mean_triple:
  assumes "length xs = 3" and "\<bar>sum_list xs\<bar> < 3 * 2 ^ 51"
  shows "round_mean xs = Inr (round (of_int (sum_list xs) / 3 :: rat))"
proof -
  from assms(1) obtain a b c where xs: "xs = [a, b, c]"
    by (auto simp add: length_Suc_conv numeral_3_eq_3)
  with assms(2) have "\<bar>a + b + c\<bar> < 6755399441055744" by (simp add: add.assoc)
  then have "round_mean [a, b, c] = Inr ((a + b + c + 1) div 3)" by (rule round_mean_3)
  also have "(a + b + c + 1) div 3 = round (of_int (a + b + c) / 3 :: rat)"
    by (simp only: round_third)
  finally show ?thesis by (simp add: xs add.assoc)
qed

lemma predict_inputs_shape:
  "predict_inputs data = Inr (cycle_lengths, period_durations, lmp_date) \<Longrightarrow>
     \<exists>c1 c2 c3 p1 p2 p3. cycle_lengths = [c1, c2, c3] \<and> period_durations = [p1, p2, p3]"
  by (auto simp add: predict_inputs_def bind_result_def split: sum.splits)




lemma bbt_block_printed:
  "\<forall>line. out line = None \<Longrightarrow> snd (bbt_block out pd name request_files) = Inr ()"
  by (simp add: bbt_block_def split: option.splits sum.splits)

lemma predict_accepted:
  assumes "accepts parts"
  shows "snd (predict accepts out pd parts) =
     bind_result (predict_inputs (form_of parts))
       (\<lambda>(cycle_lengths, period_durations, lmp_date).
          bind_result
            (if form_of parts ''pcos'' = Some ''true''
             then snd (bbt_block out pd (form_of parts ''name'') (files_of parts)) else Inr ())
            (\<lambda>_. predict_response cycle_lengths period_durations lmp_date
                    (form_of parts ''pcos'' = Some ''true'')))"
  using assms
  by (simp add: predict_def parse_request_def bind_result_def Let_def
      split: sum.splits prod.splits)

lemma predict_body:
  assumes "accepts parts"
    and "form_of parts ''pcos'' = Some ''true'' \<Longrightarrow> \<forall>line. out line = None"
  shows "snd (predict accepts out pd parts) =
     bind_result (predict_inputs (form_of parts))
       (\<lambda>(cycle_lengths, period_durations, lmp_date).
          predict_response cycle_lengths period_durations lmp_date
            (form_of parts ''pcos'' = Some ''true''))"
  using assms bbt_block_printed [of out pd "form_of parts ''name''" "files_of parts"]
  by (auto simp add: predict_accepted bind_result_def split: sum.splits prod.splits)

lemma predict_returned:
  assumes "accepts parts"
    and "predict_inputs (form_of parts) = Inr (cycle_lengths, period_durations, lmp_date)"
    and "snd (predict accepts out pd parts) = Inr body"
  shows "predict_response cycle_lengths period_durations lmp_date
           (form_of parts ''pcos'' = Some ''true'') = Inr body"
  using assms(3)
  by (simp add: predict_accepted [where accepts = accepts and parts = parts, OF assms(1)] assms(2) bind_result_def
      split: sum.splits if_splits)

text \<open>
  With the condition reported and a file uploaded, an output that cannot take the line of
  the file name makes the handler fail, whatever the form holds.
\<close>

lemma predict_print_failure:
  assumes "accepts parts"
    and "predict_inputs (form_of parts) = Inr inputs"
    and "form_of parts ''pcos'' = Some ''true''"
    and "files_of parts ''bbtFile'' = Some bbt_file" and "filename bbt_file \<noteq> []"
    and "out (''Received file: '' @ filename bbt_file) = Some e"
  shows "snd (predict accepts out pd parts) = Inl StdoutError"
  using assms(2-6)
  by (simp add: predict_accepted [where accepts = accepts and parts = parts, OF assms(1)] bind_result_def bbt_block_def
      split: prod.splits)

lemma scenario_inputs:
  "predict_inputs (form_of scenario_request) = Inr ([28, 30, 26], [5, 6, 5], Datetime 738886)"
  by (simp add: predict_inputs_def scenario_request_def bind_result_def parsing_defs calendar_defs)

lemma scenario_pcos: "(form_of scenario_request ''pcos'' = Some ''true'') = False"
  by (simp add: scenario_request_def)

lemma scenario_response:
  "predict_response [28, 30, 26] [5, 6, 5] (Datetime 738886) False = Inr scenario_body"
  by (simp add: predict_response_def round_mean_3 calculate_ovulation_day_no_pcos
      calculate_fertile_window_def calculate_conception_probability_def upt_0_7
      probabilities_def entry_json_def date_arith_defs strftime_defs scenario_body_def)

lemma scenario_body_eq:
  assumes "accepts parts" and "form_of parts = form_of scenario_request"
  shows "snd (predict accepts out pd parts) = Inr scenario_body"
proof -
  have "form_of parts ''pcos'' = Some ''true'' \<Longrightarrow> \<forall>line. out line = None"
    using scenario_pcos by (simp add: assms(2))
  from predict_body [where accepts = accepts and parts = parts and out = out and pd = pd,
      OF assms(1) this]
  show ?thesis
    by (simp add: assms(2) scenario_inputs scenario_pcos scenario_response bind_result_def)
qed

text \<open>
  C5, as the code has it. Let the request be parsed and its form be read, and let the
  three cycle lengths and the three period durations each sum to less than \<open>3 * 2 ^ 51\<close>
  in magnitude. Whenever Predict returns a body, its insights are the two arithmetic means
  rounded to the nearest integer, and the ovulation day it reports is computed from the
  reference date \<open>lmpDate3 + averageCycleLength\<close> days, not from \<open>lmpDate3\<close>.
\<close>

theorem predict_insights_and_projection:
  assumes "accepts parts"
    and "predict_inputs (form_of parts) = Inr (cycle_lengths, period_durations, lmp_date)"
    and "\<bar>sum_list cycle_lengths\<bar> < 3 * 2 ^ 51"
    and "\<bar>sum_list period_durations\<bar> < 3 * 2 ^ 51"
    and "snd (predict accepts out pd parts) = Inr body"
    and "avg_cycle_length = round (of_int (sum_list cycle_lengths) / 3 :: rat)"
    and "avg_period_duration = round (of_int (sum_list period_durations) / 3 :: rat)"
  shows "length cycle_lengths = 3 \<and> length period_durations = 3
    \<and> json_get body ''insights'' =
        Some (JObj [(''averageCycleLength'', JInt avg_cycle_length),
                    (''averagePeriodDuration'', JInt avg_period_duration)])
    \<and> (\<exists>next_lmp_date ovulation_day.
          datetime_add lmp_date avg_cycle_length = Inr next_lmp_date
          \<and> toordinal next_lmp_date = toordinal lmp_date + avg_cycle_length
          \<and> calculate_ovulation_day next_lmp_date avg_cycle_length
                (form_of parts ''pcos'' = Some ''true'') = Inr ovulation_day
          \<and> json_get body ''ovulationDay'' = Some (JStr (strftime_long ovulation_day)))"
proof -
  from predict_inputs_shape [OF assms(2)]
  have len: "length cycle_lengths = 3" "length period_durations = 3" by auto
  have mc: "round_mean cycle_lengths = Inr avg_cycle_length"
    unfolding assms(6) by (rule round_mean_triple [OF len(1) assms(3)])
  have mp: "round_mean period_durations = Inr avg_period_duration"
    unfolding assms(7) by (rule round_mean_triple [OF len(2) assms(4)])
  have "predict_response cycle_lengths period_durations lmp_date
      (form_of parts ''pcos'' = Some ''true'') = Inr body"
    by (rule predict_returned [where accepts = accepts and out = out and pd = pd,
          OF assms(1) assms(2) assms(5)])
  then have "json_get body ''insights'' =
        Some (JObj [(''averageCycleLength'', JInt avg_cycle_length),
                    (''averagePeriodDuration'', JInt avg_period_duration)])
    \<and> (\<exists>next_lmp_date ovulation_day.
          datetime_add lmp_date avg_cycle_length = Inr next_lmp_date
          \<and> toordinal next_lmp_date = toordinal lmp_date + avg_cycle_length
          \<and> calculate_ovulation_day next_lmp_date avg_cycle_length
                (form_of parts ''pcos'' = Some ''true'') = Inr ovulation_day
          \<and> json_get body ''ovulationDay'' = Some (JStr (strftime_long ovulation_day)))"
    unfolding predict_response_def mc mp
    by (auto simp add: bind_result_def json_get_def timedelta_def datetime_add_def Let_def
        split: sum.splits if_splits)
  with len show ?thesis by simp
qed

lemma scenario_accepted: "max_form_parts scenario_request"
  by (simp add: max_form_parts_def scenario_request_def)

text \<open>
  The theorem at the round-trip scenario: the means are 28 and 5, the reference date is
  2024-01-29 (ordinal 738914) and the ovulation day 2024-02-12 (ordinal 738928).
\<close>

theorem predict_insights_and_projection_witness:
  "snd (predict max_form_parts stdout_ok no_pandas scenario_request) = Inr scenario_body
   \<and> json_get scenario_body ''insights'' =
       Some (JObj [(''averageCycleLength'', JInt 28), (''averagePeriodDuration'', JInt 5)])
   \<and> datetime_add (Datetime 738886) 28 = Inr (Datetime 738914)
   \<and> calculate_ovulation_day (Datetime 738914) 28 False = Inr (Datetime 738928)
   \<and> json_get scenario_body ''ovulationDay'' = Some (JStr (strftime_long (Datetime 738928)))"
proof -
  have h5: "snd (predict max_form_parts stdout_ok no_pandas scenario_request) = Inr scenario_body"
    using scenario_accepted by (rule scenario_body_eq) simp
  have h6: "(28::int) = round (of_int (sum_list [28, 30, 26]) / 3 :: rat)"
    using round_third [of 84] by simp
  have h7: "(5::int) = round (of_int (sum_list [5, 6, 5]) / 3 :: rat)"
    using round_third [of 16] by simp
  from predict_insights_and_projection
         [where accepts = max_form_parts and parts = scenario_request,
          OF scenario_accepted scenario_inputs _ _ h5 h6 h7]
  show ?thesis
    by (auto simp add: h5 scenario_pcos datetime_add_def MAXORDINAL_def
        calculate_ovulation_day_no_pcos)
qed

text \<open>
  The division \<open>sum / 3\<close> is a float division. Three period durations that sum to
  \<open>3 * 2 ^ 51 + 4\<close> have the mean \<open>2251799813685249 + 1/3\<close>; the nearest float is
  \<open>2251799813685249.5\<close>, which \<open>round\<close> takes to the even neighbour.
\<close>

lemma long_periods_mean:
  "round_mean [2251799813685250, 2251799813685249, 2251799813685249] = Inr 2251799813685250"
proof -
  define x :: rat where "x = 6755399441055748 / 3"
  have x0: "x \<noteq> 0" by (simp add: x_def)
  have "ilog2 x = 51" by (rule ilog2_eq) (simp_all add: pow2_def x_def)
  then have u: "ulp x = 1 / 2" by (simp add: ulp_def pow2_def)
  have "\<bar>x / ulp x - of_int 4503599627370499\<bar> < 1 / 2" unfolding u by (simp add: x_def)
  from rnd_near [OF x0 this] have r: "rnd x = 4503599627370499 / 2" unfolding u by simp
  have "\<lfloor>of_int 4503599627370499 / of_int 2 :: rat\<rfloor> = 4503599627370499 div 2"
    by (rule floor_divide_of_int_eq)
  then have f: "\<lfloor>4503599627370499 / 2 :: rat\<rfloor> = 2251799813685249" by simp
  have i: "rint (4503599627370499 / 2) = 2251799813685250" by (simp add: rint_def Let_def f)
  have b: "\<bar>4503599627370499 / 2 :: rat\<bar> < 2 ^ 1024" using two_1024_big by simp
  have "int_truediv 6755399441055748 3 = Inr (4503599627370499 / 2)"
    using r b by (simp add: int_truediv_def x_def)
  then show ?thesis by (simp add: round_mean_def bind_result_def py_round_def i)
qed

lemma long_periods_inputs:
  "predict_inputs (form_of long_periods_request) =
     Inr ([28, 30, 26], [2251799813685250, 2251799813685249, 2251799813685249], Datetime 738886)"
  by (simp add: predict_inputs_def long_periods_request_def bind_result_def parsing_defs
      calendar_defs)

lemma long_periods_pcos: "(form_of long_periods_request ''pcos'' = Some ''true'') = False"
  by (simp add: long_periods_request_def)

lemma long_periods_accepted: "max_form_parts long_periods_request"
  by (simp add: max_form_parts_def long_periods_request_def)

text \<open>
  C5 as stated, for all inputs, fails on these period durations: the request is answered,
  and the reported average period duration is 2251799813685250, while the mean rounded to
  the nearest integer is 2251799813685249.
\<close>

theorem predict_insights_counterexample:
  "max_form_parts long_periods_request
   \<and> predict_inputs (form_of long_periods_request) =
       Inr ([28, 30, 26], [2251799813685250, 2251799813685249, 2251799813685249],
            Datetime 738886)
   \<and> (case snd (predict max_form_parts stdout_ok no_pandas long_periods_request) of
         Inl e \<Rightarrow> None | Inr body \<Rightarrow> json_get body ''insights'')
       = Some (JObj [(''averageCycleLength'', JInt 28),
                     (''averagePeriodDuration'', JInt 2251799813685250)])
   \<and> round (of_int (sum_list [2251799813685250, 2251799813685249, 2251799813685249]) / 3 :: rat)
       = 2251799813685249"
proof -
  have "round (of_int 6755399441055748 / 3 :: rat) = 2251799813685249"
    using round_third [of 6755399441055748] by simp
  moreover have "snd (predict max_form_parts stdout_ok no_pandas long_periods_request) =
      predict_response [28, 30, 26] [2251799813685250, 2251799813685249, 2251799813685249]
        (Datetime 738886) False"
    using predict_body [where accepts = max_form_parts and parts = long_periods_request
        and out = stdout_ok and pd = no_pandas, OF long_periods_accepted]
    by (simp add: long_periods_inputs long_periods_pcos bind_result_def)
  then have "(case snd (predict max_form_parts stdout_ok no_pandas long_periods_request) of
         Inl e \<Rightarrow> None | Inr body \<Rightarrow> json_get body ''insights'')
       = Some (JObj [(''averageCycleLength'', JInt 28),
                     (''averagePeriodDuration'', JInt 2251799813685250)])"
    by (simp add: predict_response_def
      round_mean_3 long_periods_mean calculate_ovulation_day_no_pcos
      calculate_fertile_window_def calculate_conception_probability_def upt_0_7
      date_arith_defs json_get_def)
  ultimately show ?thesis by (simp add: long_periods_inputs long_periods_accepted)
qed

text \<open>
  C6. The round-trip scenario: cycles 28, 30 and 26 days, periods of 5, 6 and 5 days, the
  last period starting on 2024-01-01, no condition. For every request the parser accepts
  whose form is the one of the scenario, the average cycle length is 28, the projected next
  period starts on 2024-01-29, the ovulation day is 2024-02-12, the fertile window runs
  from 2024-02-07 to 2024-02-13, the cycles are \<^verbatim>\<open>Regular\<close>, and the body of the response is
  the one below.
\<close>

theorem predict_round_trip:
  assumes "accepts parts" and "form_of parts = form_of scenario_request"
  shows "predict_inputs (form_of parts) = Inr ([28, 30, 26], [5, 6, 5], Datetime (ymd2ord 2024 1 1))
   \<and> round_mean [28, 30, 26] = Inr 28
   \<and> datetime_add (Datetime (ymd2ord 2024 1 1)) 28 = Inr (Datetime (ymd2ord 2024 1 29))
   \<and> calculate_ovulation_day (Datetime (ymd2ord 2024 1 29)) 28 False
       = Inr (Datetime (ymd2ord 2024 2 12))
   \<and> calculate_fertile_window (Datetime (ymd2ord 2024 2 12))
       = Inr \<lparr>start = Datetime (ymd2ord 2024 2 7), finish = Datetime (ymd2ord 2024 2 13)\<rparr>
   \<and> analyze_cycle_regularity [28, 30, 26] False = Inr ''Regular''
   \<and> snd (predict accepts out pd parts) =
       Inr (JObj
         [(''fertileWindow'', JObj
             [(''start'', JStr ''Wednesday, February 07, 2024''),
              (''end'', JStr ''Tuesday, February 13, 2024'')]),
          (''ovulationDay'', JStr ''Monday, February 12, 2024''),
          (''cycleRegularity'', JStr ''Regular''),
          (''conceptionProbability'', JArr
             [JObj [(''date'', JStr ''February 07''), (''probability'', JStr ''Low (~4%)'')],
              JObj [(''date'', JStr ''February 08''), (''probability'', JStr ''Low (~10%)'')],
              JObj [(''date'', JStr ''February 09''), (''probability'', JStr ''Medium (~15%)'')],
              JObj [(''date'', JStr ''February 10''), (''probability'', JStr ''High (~27%)'')],
              JObj [(''date'', JStr ''February 11''), (''probability'', JStr ''High (~30%)'')],
              JObj [(''date'', JStr ''February 12''), (''probability'', JStr ''Peak (~33%)'')],
              JObj [(''date'', JStr ''February 13''), (''probability'', JStr ''Very Low'')]]),
          (''insights'', JObj
             [(''averageCycleLength'', JInt 28), (''averagePeriodDuration'', JInt 5)])])"
proof -
  have o: "ymd2ord 2024 1 1 = 738886" "ymd2ord 2024 1 29 = 738914"
    "ymd2ord 2024 2 12 = 738928" "ymd2ord 2024 2 7 = 738923" "ymd2ord 2024 2 13 = 738929"
    by (simp_all add: calendar_defs)
  have "round_mean [28, 30, 26] = Inr 28" by (simp add: round_mean_3)
  moreover have "datetime_add (Datetime 738886) 28 = Inr (Datetime 738914)"
    by (simp add: date_arith_defs)
  moreover have "calculate_ovulation_day (Datetime 738914) 28 False = Inr (Datetime 738928)"
    by (simp add: calculate_ovulation_day_no_pcos MAXORDINAL_def)
  moreover have "calculate_fertile_window (Datetime 738928)
       = Inr \<lparr>start = Datetime 738923, finish = Datetime 738929\<rparr>"
    by (simp add: calculate_fertile_window_def date_arith_defs)
  moreover have "analyze_cycle_regularity [28, 30, 26] False = Inr ''Regular''" by simp
  moreover have "snd (predict accepts out pd parts) = Inr scenario_body"
    using assms by (rule scenario_body_eq)
  ultimately show ?thesis
    unfolding o scenario_body_def by (simp only: assms(2) scenario_inputs simp_thms)
qed

text \<open>
  The theorem at the request of the scenario itself, nine fields and no file.
\<close>

theorem predict_round_trip_witness:
  "snd (predict max_form_parts stdout_ok no_pandas scenario_request) = Inr scenario_body"
  using predict_round_trip [where accepts = max_form_parts and parts = scenario_request
      and out = stdout_ok and pd = no_pandas, OF scenario_accepted]
  by (simp add: scenario_body_def)






section \<open>The data retrieval handler: the claims\<close>

lemma load_columns_result:
  "load_columns user_row columns_to_load [(''success'', s), (''message'', m)] =
     [(''success'', s), (''message'', m)]
       @ map (\<lambda>col. (col, field_json (user_row col))) columns_to_load"
  by (simp add: columns_to_load_def)

lemma result_no_file:
  "(case request_files ''bbtFile_data'' of None \<Rightarrow> True | Some f \<Rightarrow> filename f = []) \<Longrightarrow>
     receive_data_result pd data request_files =
       [(''success'', JBool False), (''message'', JStr ''No file uploaded.'')]"
  by (simp add: receive_data_result_def split: option.splits)

lemma result_unreadable:
  "request_files ''bbtFile_data'' = Some f \<Longrightarrow> filename f \<noteq> [] \<Longrightarrow> read_table pd f = Inl e \<Longrightarrow>
     receive_data_result pd data request_files =
       [(''success'', JBool False), (''message'', JStr (''Error reading file: '' @ e))]"
  by (simp add: receive_data_result_def)

lemma result_no_user_id:
  "request_files ''bbtFile_data'' = Some f \<Longrightarrow> filename f \<noteq> [] \<Longrightarrow> read_table pd f = Inr df \<Longrightarrow>
   ''user_id'' \<notin> set (columns df) \<Longrightarrow>
     receive_data_result pd data request_files =
       [(''success'', JBool False),
        (''message'', JStr (''No '' @ quoted ''user_id'' @ '' column found in the file.''))]"
  by (simp add: receive_data_result_def)

lemma result_no_rows:
  "request_files ''bbtFile_data'' = Some f \<Longrightarrow> filename f \<noteq> [] \<Longrightarrow> read_table pd f = Inr df \<Longrightarrow>
   ''user_id'' \<in> set (columns df) \<Longrightarrow> filter (matches_user (data ''name'')) (rows df) = [] \<Longrightarrow>
     receive_data_result pd data request_files =
       [(''success'', JBool False),
        (''message'', JStr (''No rows found for user_id '' @ quoted (name_text (data ''name''))
                              @ ''.''))]"
  by (simp add: receive_data_result_def)

lemma result_found:
  "request_files ''bbtFile_data'' = Some f \<Longrightarrow> filename f \<noteq> [] \<Longrightarrow> read_table pd f = Inr df \<Longrightarrow>
   ''user_id'' \<in> set (columns df) \<Longrightarrow>
   filter (matches_user (data ''name'')) (rows df) = user_row # others \<Longrightarrow>
     receive_data_result pd data request_files =
       [(''success'', JBool True),
        (''message'', JStr (''Data loaded for user '' @ quoted (name_text (data ''name'')) @ ''.''))]
       @ map (\<lambda>col. (col, field_json (series_get df user_row col))) columns_to_load"
  by (simp add: receive_data_result_def load_columns_result)

lemma messages_distinct:
  "distinct [''No file uploaded.'', ''Error reading file: '' @ e,
             ''No '' @ quoted ''user_id'' @ '' column found in the file.'',
             ''No rows found for user_id '' @ quoted user @ ''.'']"
  by (simp add: quoted_def)

text \<open>The five paths through the handler, once the request is parsed.\<close>

lemma result_cases:
  obtains
    (no_file) "case request_files ''bbtFile_data'' of None \<Rightarrow> True | Some f \<Rightarrow> filename f = []"
  | (unreadable) f e where "request_files ''bbtFile_data'' = Some f" "filename f \<noteq> []"
      "read_table pd f = Inl e"
  | (no_user_id) f df where "request_files ''bbtFile_data'' = Some f" "filename f \<noteq> []"
      "read_table pd f = Inr df" "''user_id'' \<notin> set (columns df)"
  | (no_rows) f df where "request_files ''bbtFile_data'' = Some f" "filename f \<noteq> []"
      "read_table pd f = Inr df" "''user_id'' \<in> set (columns df)"
      "filter (matches_user (data ''name'')) (rows df) = []"
  | (found) f df user_row others where "request_files ''bbtFile_data'' = Some f" "filename f \<noteq> []"
      "read_table pd f = Inr df" "''user_id'' \<in> set (columns df)"
      "filter (matches_user (data ''name'')) (rows df) = user_row # others"
proof (cases "request_files ''bbtFile_data''")
  case None
  then show ?thesis using no_file by simp
next
  case (Some f)
  show ?thesis
  proof (cases "filename f = []")
    case True
    with Some show ?thesis using no_file by simp
  next
    case False
    show ?thesis
    proof (cases "read_table pd f")
      case (Inl e)
      with Some False show ?thesis using unreadable by blast
    next
      case (Inr df)
      show ?thesis
      proof (cases "''user_id'' \<in> set (columns df)")
        case True
        show ?thesis
        proof (cases "filter (matches_user (data ''name'')) (rows df)")
          case Nil
          with Some False Inr True show ?thesis using no_rows by blast
        next
          case (Cons user_row others)
          with Some False Inr True show ?thesis using found by blast
        qed
      next
        case False
        with Some \<open>filename f \<noteq> []\<close> Inr show ?thesis using no_user_id by blast
      qed
    qed
  qed
qed

lemma result_wellformed:
  "distinct (map fst (receive_data_result pd data request_files))
   \<and> (\<exists>b m. map_of (receive_data_result pd data request_files) ''success'' = Some (JBool b)
            \<and> map_of (receive_data_result pd data request_files) ''message'' = Some (JStr m))"
proof (cases rule: result_cases [where request_files = request_files and pd = pd and data = data])
  case no_file
  then show ?thesis by (auto simp add: result_no_file)
next
  case (unreadable f e)
  then show ?thesis by (auto simp add: result_unreadable)
next
  case (no_user_id f df)
  then show ?thesis by (auto simp add: result_no_user_id)
next
  case (no_rows f df)
  then show ?thesis by (auto simp add: result_no_rows)
next
  case (found f df user_row others)
  then show ?thesis by (auto simp add: result_found columns_to_load_def)
qed

lemma result_success_iff:
  "map_of (receive_data_result pd data request_files) ''success'' = Some (JBool True) \<longleftrightarrow>
     (\<exists>f df. request_files ''bbtFile_data'' = Some f \<and> filename f \<noteq> []
        \<and> read_table pd f = Inr df \<and> ''user_id'' \<in> set (columns df)
        \<and> filter (matches_user (data ''name'')) (rows df) \<noteq> [])"
proof (cases rule: result_cases [where request_files = request_files and pd = pd and data = data])
  case no_file
  then show ?thesis by (auto simp add: result_no_file split: option.splits)
next
  case (unreadable f e)
  then show ?thesis by (simp add: result_unreadable)
next
  case (no_user_id f df)
  then show ?thesis by (simp add: result_no_user_id)
next
  case (no_rows f df)
  then show ?thesis by (simp add: result_no_rows)
next
  case (found f df user_row others)
  then show ?thesis by (simp add: result_found)
qed

lemma result_key_list:
  "map fst (receive_data_result pd data request_files) =
     (if map_of (receive_data_result pd data request_files) ''success'' = Some (JBool True)
      then [''success'', ''message''] @ columns_to_load else [''success'', ''message''])"
proof (cases rule: result_cases [where request_files = request_files and pd = pd and data = data])
  case no_file
  then show ?thesis by (simp add: result_no_file)
next
  case (unreadable f e)
  then show ?thesis by (simp add: result_unreadable)
next
  case (no_user_id f df)
  then show ?thesis by (simp add: result_no_user_id)
next
  case (no_rows f df)
  then show ?thesis by (simp add: result_no_rows)
next
  case (found f df user_row others)
  then show ?thesis by (simp add: result_found comp_def)
qed

lemma receive_data_accepted:
  "accepts parts \<Longrightarrow>
     receive_data accepts pd parts =
       Inr (receive_data_result pd (form_of parts) (files_of parts))"
  by (simp add: receive_data_def parse_request_def)

lemma receive_data_refused:
  "\<not> accepts parts \<Longrightarrow> receive_data accepts pd parts = Inl RequestEntityTooLarge"
  by (simp add: receive_data_def parse_request_def)

lemma receive_data_returns:
  "receive_data accepts pd parts = Inr result \<Longrightarrow>
     accepts parts \<and> result = receive_data_result pd (form_of parts) (files_of parts)"
  by (auto simp add: receive_data_def parse_request_def split: if_splits)

lemmas example_defs =
  read_table_def endswith_def lower_def lower_char_def history_pandas_def history_frame_def
  anonymous_frame_def history_csv_def anonymous_csv_def lookup_request_def matches_user_def
  name_text_def quoted_def max_form_parts_def

text \<open>
  C7, as the code has it. For every request the parser accepts, each of the four error
  conditions of the data retrieval handler (no file provided, a file the reader rejects,
  a table without a \<open>user_id\<close> column, no row for the given name) yields
  \<open>success = false\<close> and its own message, the four messages being pairwise different;
  and the handler returns an object with distinct keys that holds a boolean \<open>success\<close>
  and a text \<open>message\<close>. A request the parser refuses is not answered with such an
  object: the exception of line 130, outside the \<open>try\<close>, leaves the handler.
\<close>

theorem receive_data_failures:
  assumes "accepts parts"
  shows
  "((case files_of parts ''bbtFile_data'' of None \<Rightarrow> True | Some f \<Rightarrow> filename f = []) \<longrightarrow>
      receive_data accepts pd parts =
        Inr [(''success'', JBool False), (''message'', JStr ''No file uploaded.'')])
   \<and> (\<forall>f. files_of parts ''bbtFile_data'' = Some f \<and> filename f \<noteq> [] \<longrightarrow>
         (\<forall>e. read_table pd f = Inl e \<longrightarrow>
            receive_data accepts pd parts =
              Inr [(''success'', JBool False), (''message'', JStr (''Error reading file: '' @ e))])
       \<and> (\<forall>df. read_table pd f = Inr df \<and> ''user_id'' \<notin> set (columns df) \<longrightarrow>
            receive_data accepts pd parts =
              Inr [(''success'', JBool False),
                   (''message'',
                    JStr (''No '' @ quoted ''user_id'' @ '' column found in the file.''))])
       \<and> (\<forall>df. read_table pd f = Inr df \<and> ''user_id'' \<in> set (columns df)
              \<and> filter (matches_user (form_of parts ''name'')) (rows df) = [] \<longrightarrow>
            receive_data accepts pd parts =
              Inr [(''success'', JBool False),
                   (''message'', JStr (''No rows found for user_id ''
                                         @ quoted (name_text (form_of parts ''name'')) @ ''.''))]))
   \<and> (\<forall>e user. distinct [''No file uploaded.'', ''Error reading file: '' @ e,
                           ''No '' @ quoted ''user_id'' @ '' column found in the file.'',
                           ''No rows found for user_id '' @ quoted user @ ''.''])
   \<and> (\<exists>result. receive_data accepts pd parts = Inr result
          \<and> distinct (map fst result)
          \<and> (\<exists>b m. map_of result ''success'' = Some (JBool b)
                   \<and> map_of result ''message'' = Some (JStr m)))
   \<and> (\<forall>refused. \<not> accepts refused \<longrightarrow>
          receive_data accepts pd refused = Inl RequestEntityTooLarge)"
proof -
  note a = receive_data_accepted [where accepts = accepts and parts = parts, OF assms]
  show ?thesis
  proof (intro conjI allI impI)
    assume "case files_of parts ''bbtFile_data'' of None \<Rightarrow> True | Some f \<Rightarrow> filename f = []"
    then show "receive_data accepts pd parts =
        Inr [(''success'', JBool False), (''message'', JStr ''No file uploaded.'')]"
      by (simp add: a result_no_file)
  next
    fix f e
    assume "files_of parts ''bbtFile_data'' = Some f \<and> filename f \<noteq> []"
      and "read_table pd f = Inl e"
    then show "receive_data accepts pd parts =
        Inr [(''success'', JBool False), (''message'', JStr (''Error reading file: '' @ e))]"
      by (simp add: a result_unreadable)
  next
    fix f df
    assume "files_of parts ''bbtFile_data'' = Some f \<and> filename f \<noteq> []"
      and "read_table pd f = Inr df \<and> ''user_id'' \<notin> set (columns df)"
    then show "receive_data accepts pd parts =
        Inr [(''success'', JBool False),
             (''message'', JStr (''No '' @ quoted ''user_id'' @ '' column found in the file.''))]"
      by (simp add: a result_no_user_id)
  next
    fix f df
    assume "files_of parts ''bbtFile_data'' = Some f \<and> filename f \<noteq> []"
      and "read_table pd f = Inr df \<and> ''user_id'' \<in> set (columns df)
             \<and> filter (matches_user (form_of parts ''name'')) (rows df) = []"
    then show "receive_data accepts pd parts =
        Inr [(''success'', JBool False),
             (''message'', JStr (''No rows found for user_id ''
                                   @ quoted (name_text (form_of parts ''name'')) @ ''.''))]"
      by (simp add: a result_no_rows)
  next
    fix e user
    show "distinct [''No file uploaded.'', ''Error reading file: '' @ e,
                    ''No '' @ quoted ''user_id'' @ '' column found in the file.'',
                    ''No rows found for user_id '' @ quoted user @ ''.'']"
      by (rule messages_distinct)
  next
    show "\<exists>result. receive_data accepts pd parts = Inr result
          \<and> distinct (map fst result)
          \<and> (\<exists>b m. map_of result ''success'' = Some (JBool b)
                   \<and> map_of result ''message'' = Some (JStr m))"
      unfolding a using result_wellformed [of pd "form_of parts" "files_of parts"] by blast
  next
    fix refused
    assume "\<not> accepts refused"
    then show "receive_data accepts pd refused = Inl RequestEntityTooLarge"
      by (rule receive_data_refused)
  qed
qed

text \<open>
  The theorem at four requests: no upload, an empty file, a table without a \<open>user_id\<close>
  column, and a user who has no row.
\<close>

theorem receive_data_failures_witness:
  "receive_data max_form_parts history_pandas [Field ''name'' ''alice''] =
     Inr [(''success'', JBool False), (''message'', JStr ''No file uploaded.'')]
   \<and> receive_data max_form_parts history_pandas (lookup_request ''alice'' ''history.csv'' []) =
     Inr [(''success'', JBool False),
          (''message'', JStr ''Error reading file: No columns to parse from file'')]
   \<and> receive_data max_form_parts history_pandas
        (lookup_request ''alice'' ''history.csv'' anonymous_csv) =
     Inr [(''success'', JBool False),
          (''message'', JStr (''No '' @ quoted ''user_id'' @ '' column found in the file.''))]
   \<and> receive_data max_form_parts history_pandas
        (lookup_request ''carol'' ''history.csv'' history_csv) =
     Inr [(''success'', JBool False),
          (''message'', JStr (''No rows found for user_id '' @ quoted ''carol'' @ ''.''))]"
  using receive_data_failures
          [where accepts = max_form_parts and pd = history_pandas
             and parts = "[Field ''name'' ''alice'']"]
        receive_data_failures
          [where accepts = max_form_parts and pd = history_pandas
             and parts = "lookup_request ''alice'' ''history.csv'' []"]
        receive_data_failures
          [where accepts = max_form_parts and pd = history_pandas
             and parts = "lookup_request ''alice'' ''history.csv'' anonymous_csv"]
        receive_data_failures
          [where accepts = max_form_parts and pd = history_pandas
             and parts = "lookup_request ''carol'' ''history.csv'' history_csv"]
  by (simp add: example_defs)

lemma files_of_fields: "files_of (replicate n (Field key v)) = Map.empty"
  by (induction n) simp_all

text \<open>
  C7 as stated, in every case, fails on a request without a file that has 1001 parts:
  the handler raises instead of reporting that no file was uploaded.
\<close>

theorem receive_data_refused_counterexample:
  "files_of crowded_lookup ''bbtFile_data'' = None
   \<and> length crowded_lookup = 1001
   \<and> receive_data max_form_parts history_pandas crowded_lookup = Inl RequestEntityTooLarge"
  by (simp add: crowded_lookup_def files_of_fields receive_data_refused max_form_parts_def)

lemma str_cell_cases:
  "JStr (str_cell c) =
     (case c of NaN \<Rightarrow> JStr ''nan'' | NaT \<Rightarrow> JStr ''NaT'' | Str s \<Rightarrow> JStr s | Scalar s \<Rightarrow> JStr s)"
  by (cases c) (simp_all add: str_cell_def)

lemma loaded_column:
  assumes "col \<in> set columns_to_load"
  shows "map_of ([(''success'', s), (''message'', m)]
                   @ map (\<lambda>col. (col, g col)) columns_to_load) col = Some (g col)"
proof -
  from assms have "col \<noteq> ''success''" "col \<noteq> ''message''"
    by (auto simp add: columns_to_load_def)
  moreover have "map_of (map (\<lambda>col. (col, g col)) columns_to_load) col = Some (g col)"
    using assms by (simp add: map_of_map_restrict)
  ultimately show ?thesis by simp
qed

text \<open>
  C8, as the code has it. When at least one row matches the given name, only the first
  matching row is read and \<open>success\<close> is true; each of the ten fixed columns carries the
  text of the cell when the column is present, and null when the column is absent. An
  empty cell of a present column is a missing value, which is not \<open>None\<close>: it is
  reported as the text of that value, \<^verbatim>\<open>nan\<close>, or \<^verbatim>\<open>NaT\<close> in a date column.
\<close>

theorem receive_data_first_match:
  assumes "accepts parts"
    and "files_of parts ''bbtFile_data'' = Some f" and "filename f \<noteq> []"
    and "read_table pd f = Inr df" and "''user_id'' \<in> set (columns df)"
    and "filter (matches_user (form_of parts ''name'')) (rows df) = user_row # others"
  shows "\<exists>result. receive_data accepts pd parts = Inr result
     \<and> result =
         [(''success'', JBool True),
          (''message'', JStr (''Data loaded for user ''
                                @ quoted (name_text (form_of parts ''name'')) @ ''.''))]
         @ map (\<lambda>col. (col, if col \<in> set (columns df) then JStr (str_cell (user_row col))
                              else JNull)) columns_to_load
     \<and> (\<forall>col \<in> set columns_to_load.
           map_of result col =
             Some (if col \<in> set (columns df)
                   then (case user_row col of
                           NaN \<Rightarrow> JStr ''nan'' | NaT \<Rightarrow> JStr ''NaT''
                         | Str s \<Rightarrow> JStr s | Scalar s \<Rightarrow> JStr s)
                   else JNull))"
proof -
  define g where "g = (\<lambda>col. if col \<in> set (columns df) then JStr (str_cell (user_row col))
                          else JNull)"
  define result where "result =
     [(''success'', JBool True),
      (''message'', JStr (''Data loaded for user ''
                            @ quoted (name_text (form_of parts ''name'')) @ ''.''))]
     @ map (\<lambda>col. (col, g col)) columns_to_load"
  have "receive_data_result pd (form_of parts) (files_of parts) = result"
    using assms(2-6) by (simp add: result_found series_get_def field_json_def result_def g_def)
  then have r: "receive_data accepts pd parts = Inr result"
    by (simp add: receive_data_accepted [where accepts = accepts and parts = parts, OF assms(1)])
  have "\<forall>col \<in> set columns_to_load. map_of result col = Some (g col)"
    unfolding result_def by (intro ballI loaded_column)
  then have "\<forall>col \<in> set columns_to_load.
           map_of result col =
             Some (if col \<in> set (columns df)
                   then (case user_row col of
                           NaN \<Rightarrow> JStr ''nan'' | NaT \<Rightarrow> JStr ''NaT''
                         | Str s \<Rightarrow> JStr s | Scalar s \<Rightarrow> JStr s)
                   else JNull)"
    by (simp only: g_def str_cell_cases)
  with r show ?thesis unfolding result_def g_def by blast
qed

text \<open>
  The theorem at the request for \<open>alice\<close>, who has two rows: the first one is reported.
\<close>

theorem receive_data_first_match_witness:
  "receive_data max_form_parts history_pandas
     (lookup_request ''alice'' ''history.csv'' history_csv) =
     Inr [(''success'', JBool True),
          (''message'', JStr (''Data loaded for user '' @ quoted ''alice'' @ ''.'')),
          (''LMP_Cycle_1'', JStr ''2024-01-01''), (''LMP_Cycle_2'', JNull),
          (''LMP_Cycle_3'', JNull),
          (''Cycle_Length_1'', JStr ''nan''), (''Cycle_Length_2'', JNull),
          (''Cycle_Length_3'', JNull),
          (''Period_Duration_1'', JNull), (''Period_Duration_2'', JNull),
          (''Period_Duration_3'', JNull), (''is_pcos'', JStr ''False'')]"
  using receive_data_first_match
          [where accepts = max_form_parts and pd = history_pandas
             and parts = "lookup_request ''alice'' ''history.csv'' history_csv"
             and f = "\<lparr>filename = ''history.csv'', stream = history_csv\<rparr>"
             and df = history_frame
             and user_row = "(\<lambda>_. NaN)(''user_id'' := Str ''alice'',
                 ''LMP_Cycle_1'' := Str ''2024-01-01'', ''Cycle_Length_1'' := NaN,
                 ''is_pcos'' := Scalar ''False'')"
             and others = "[(\<lambda>_. NaN)(''user_id'' := Str ''alice'',
                 ''LMP_Cycle_1'' := Str ''2023-12-04'', ''Cycle_Length_1'' := Scalar ''28.0'',
                 ''is_pcos'' := Scalar ''False'')]"]
  by (auto simp add: example_defs columns_to_load_def str_cell_def)

text \<open>
  C8 as stated asks for null when the column exists and the cell is empty. In the first row
  of \<open>alice\<close> the cell under \<open>Cycle_Length_1\<close> is empty, and the response carries the
  text \<^verbatim>\<open>nan\<close> for it, not null.
\<close>

theorem receive_data_empty_cell_counterexample:
  "''Cycle_Length_1'' \<in> set (columns history_frame)
   \<and> hd (filter (matches_user (Some ''alice'')) (rows history_frame)) ''Cycle_Length_1'' = NaN
   \<and> (case receive_data max_form_parts history_pandas
              (lookup_request ''alice'' ''history.csv'' history_csv) of
         Inl e \<Rightarrow> None | Inr result \<Rightarrow> map_of result ''Cycle_Length_1'')
       = Some (JStr ''nan'')
   \<and> (case receive_data max_form_parts history_pandas
              (lookup_request ''alice'' ''history.csv'' history_csv) of
         Inl e \<Rightarrow> None | Inr result \<Rightarrow> map_of result ''Cycle_Length_1'')
       \<noteq> Some JNull"
  by (simp add: receive_data_def parse_request_def receive_data_result_def load_columns_result
      example_defs columns_to_load_def series_get_def field_json_def str_cell_def)

text \<open>
  C10. Whenever the handler returns a response, it has the ten field keys exactly when
  \<open>success\<close> is true, that is when a file was uploaded, it was read, it has a \<open>user_id\<close>
  column and some row matches the name; on every other path its keys are \<open>success\<close> and
  \<open>message\<close> and no other.
\<close>

theorem receive_data_keys:
  assumes "receive_data accepts pd parts = Inr result"
  shows "map fst result =
     (if map_of result ''success'' = Some (JBool True)
      then [''success'', ''message''] @ columns_to_load else [''success'', ''message''])
   \<and> (map_of result ''success'' = Some (JBool True) \<longleftrightarrow>
        (\<exists>f df. files_of parts ''bbtFile_data'' = Some f \<and> filename f \<noteq> []
           \<and> read_table pd f = Inr df \<and> ''user_id'' \<in> set (columns df)
           \<and> filter (matches_user (form_of parts ''name'')) (rows df) \<noteq> []))"
proof -
  from receive_data_returns [OF assms]
  have r: "result = receive_data_result pd (form_of parts) (files_of parts)" by simp
  show ?thesis
    unfolding r
    using result_key_list [of pd "form_of parts" "files_of parts"]
      result_success_iff [of pd "form_of parts" "files_of parts"]
    by (simp only: simp_thms)
qed

text \<open>
  The theorem at a request that finds a row and at one that finds none.
\<close>

theorem receive_data_keys_witness:
  "map fst (projr (receive_data max_form_parts history_pandas
                    (lookup_request ''alice'' ''history.csv'' history_csv)))
     = [''success'', ''message''] @ columns_to_load
   \<and> map fst (projr (receive_data max_form_parts history_pandas
                    (lookup_request ''carol'' ''history.csv'' history_csv)))
     = [''success'', ''message'']"
proof -
  have a: "receive_data max_form_parts history_pandas
             (lookup_request ''alice'' ''history.csv'' history_csv)
           = Inr (projr (receive_data max_form_parts history_pandas
                    (lookup_request ''alice'' ''history.csv'' history_csv)))"
    by (simp add: receive_data_def parse_request_def max_form_parts_def lookup_request_def)
  have c: "receive_data max_form_parts history_pandas
             (lookup_request ''carol'' ''history.csv'' history_csv)
           = Inr (projr (receive_data max_form_parts history_pandas
                    (lookup_request ''carol'' ''history.csv'' history_csv)))"
    by (simp add: receive_data_def parse_request_def max_form_parts_def lookup_request_def)
  from receive_data_keys [OF a] receive_data_keys [OF c]
  show ?thesis by (simp add: example_defs)
qed

end
